theory Spec2Isabelle
  imports Complex_Main "HOL-Library.Multiset" "HOL-Library.Word"
begin

section \<open>Strings\<close>

text \<open>
  A JavaScript string is a sequence of UTF-16 code units. The regular expressions of the
  repository carry no \<open>u\<close> flag, so they also work on code units.
  \<open>js\<close> turns an ASCII literal into such a string.
\<close>

type_synonym jsstring = "nat list"

definition js :: "string \<Rightarrow> jsstring" where
  "js s = map of_char s"

text \<open>
  \<open>String.prototype.toLowerCase\<close> and \<open>toUpperCase\<close> on the ASCII letters. Code units
  outside \<open>A-Z\<close> / \<open>a-z\<close> are left as they are: the Unicode case tables are not part of
  the repository, and every literal the code compares against is ASCII or already in lower case.
\<close>

definition lowerUnit :: "nat \<Rightarrow> nat" where
  "lowerUnit c = (if 65 \<le> c \<and> c \<le> 90 then c + 32 else c)"

definition upperUnit :: "nat \<Rightarrow> nat" where
  "upperUnit c = (if 97 \<le> c \<and> c \<le> 122 then c - 32 else c)"

definition toLowerCase :: "jsstring \<Rightarrow> jsstring" where
  "toLowerCase s = map lowerUnit s"

definition toUpperCase :: "jsstring \<Rightarrow> jsstring" where
  "toUpperCase s = map upperUnit s"

text \<open>The class \<open>\s\<close> of a JavaScript regular expression, which is also what \<open>trim\<close> strips.\<close>

definition isSpace :: "nat \<Rightarrow> bool" where
  "isSpace c \<longleftrightarrow>
     (9 \<le> c \<and> c \<le> 13) \<or> c = 32 \<or> c = 160 \<or> c = 5760 \<or> (8192 \<le> c \<and> c \<le> 8202)
     \<or> c = 8232 \<or> c = 8233 \<or> c = 8239 \<or> c = 8287 \<or> c = 12288 \<or> c = 65279"

definition isDigit :: "nat \<Rightarrow> bool" where
  "isDigit c \<longleftrightarrow> 48 \<le> c \<and> c \<le> 57"

definition trim :: "jsstring \<Rightarrow> jsstring" where
  "trim s = rev (dropWhile isSpace (rev (dropWhile isSpace s)))"

text \<open>\<open>Array.prototype.join\<close> on an array of strings.\<close>

fun join :: "jsstring \<Rightarrow> jsstring list \<Rightarrow> jsstring" where
  "join sep [] = []"
| "join sep [x] = x"
| "join sep (x # y # ys) = x @ sep @ join sep (y # ys)"

text \<open>\<open>String.prototype.split\<close> with a one-unit separator.\<close>

fun split_on :: "nat \<Rightarrow> jsstring \<Rightarrow> jsstring list" where
  "split_on d [] = [[]]"
| "split_on d (c # cs) =
     (if c = d then [] # split_on d cs
      else (case split_on d cs of [] \<Rightarrow> [[c]] | p # ps \<Rightarrow> (c # p) # ps))"

text \<open>
  \<open>String.prototype.localeCompare\<close>, as the order of the code units: on the strings the
  sort sees (site keys in lower-case ASCII, ISO dates) the locale's collation agrees with it.
  The result is \<open>-1\<close>, \<open>0\<close> or \<open>1\<close>.
\<close>

fun localeCompare :: "jsstring \<Rightarrow> jsstring \<Rightarrow> int" where
  "localeCompare [] [] = 0"
| "localeCompare [] (y # ys) = - 1"
| "localeCompare (x # xs) [] = 1"
| "localeCompare (x # xs) (y # ys) =
     (if x < y then - 1 else if y < x then 1 else localeCompare xs ys)"

section \<open>Regular expressions\<close>

text \<open>
  The fragment of JavaScript regular expressions that the salary pattern uses, with the
  backtracking order of the language: \<open>rx_match r s c\<close> lists every way \<open>r\<close> can match a
  prefix of \<open>s\<close>, starting from the captures \<open>c\<close>, in the order the engine tries them
  (greedy quantifiers try the longest run first, an optional part is tried before it is
  skipped). The engine takes the first success.
\<close>

datatype rx =
    Unit "nat \<Rightarrow> bool"
  | Star "nat \<Rightarrow> bool"
  | Plus "nat \<Rightarrow> bool"
  | Opt rx
  | Seq rx rx
  | Group nat rx

type_synonym captures = "(nat \<times> jsstring) list"

definition runs :: "nat \<Rightarrow> (nat \<Rightarrow> bool) \<Rightarrow> jsstring \<Rightarrow> captures \<Rightarrow> (captures \<times> jsstring) list" where
  "runs lo p s c =
     map (\<lambda>n. (c, drop n s)) (rev [lo ..< Suc (length (takeWhile p s))])"

fun rx_match :: "rx \<Rightarrow> jsstring \<Rightarrow> captures \<Rightarrow> (captures \<times> jsstring) list" where
  "rx_match (Unit p) s c = (case s of [] \<Rightarrow> [] | x # xs \<Rightarrow> if p x then [(c, xs)] else [])"
| "rx_match (Star p) s c = runs 0 p s c"
| "rx_match (Plus p) s c = runs 1 p s c"
| "rx_match (Opt r) s c = rx_match r s c @ [(c, s)]"
| "rx_match (Seq r1 r2) s c =
     concat (map (\<lambda>m. rx_match r2 (snd m) (fst m)) (rx_match r1 s c))"
| "rx_match (Group k r) s c =
     map (\<lambda>m. ((k, take (length s - length (snd m)) s) # fst m, snd m)) (rx_match r s c)"

text \<open>
  \<open>String.prototype.match\<close> with a pattern without the \<open>g\<close> flag: the leftmost start
  position at which the pattern matches, and the captures of the first success there.
\<close>

fun rx_exec :: "rx \<Rightarrow> jsstring \<Rightarrow> captures option" where
  "rx_exec r [] = (case rx_match r [] [] of [] \<Rightarrow> None | m # _ \<Rightarrow> Some (fst m))"
| "rx_exec r (x # xs) =
     (case rx_match r (x # xs) [] of [] \<Rightarrow> rx_exec r xs | m # _ \<Rightarrow> Some (fst m))"

text \<open>
  \<open>match[k]\<close>. Every group of the salary pattern lies on the one path through the pattern,
  so each of them is set whenever the pattern matches (\<open>salary_pattern_groups\<close> below) and
  the empty default is never taken.
\<close>

definition grp :: "captures \<Rightarrow> nat \<Rightarrow> jsstring" where
  "grp c k = (case map_of c k of None \<Rightarrow> [] | Some g \<Rightarrow> g)"

section \<open>Enumerations\<close>

text \<open>The enumerations. Their members are strings at run time; \<open>*_value\<close> gives the string.\<close>

datatype Site =
  LINKEDIN | INDEED | ZIP_RECRUITER | GLASSDOOR | GOOGLE | GOOGLE_CAREERS | BAYT | NAUKRI | BDJOBS

fun Site_value :: "Site \<Rightarrow> jsstring" where
  "Site_value LINKEDIN = js ''linkedin''"
| "Site_value INDEED = js ''indeed''"
| "Site_value ZIP_RECRUITER = js ''zip_recruiter''"
| "Site_value GLASSDOOR = js ''glassdoor''"
| "Site_value GOOGLE = js ''google''"
| "Site_value GOOGLE_CAREERS = js ''google_careers''"
| "Site_value BAYT = js ''bayt''"
| "Site_value NAUKRI = js ''naukri''"
| "Site_value BDJOBS = js ''bdjobs''"

text \<open>The declared names of the members: the keys of the object the enumeration compiles to.\<close>

fun Site_key :: "Site \<Rightarrow> jsstring" where
  "Site_key LINKEDIN = js ''LINKEDIN''"
| "Site_key INDEED = js ''INDEED''"
| "Site_key ZIP_RECRUITER = js ''ZIP_RECRUITER''"
| "Site_key GLASSDOOR = js ''GLASSDOOR''"
| "Site_key GOOGLE = js ''GOOGLE''"
| "Site_key GOOGLE_CAREERS = js ''GOOGLE_CAREERS''"
| "Site_key BAYT = js ''BAYT''"
| "Site_key NAUKRI = js ''NAUKRI''"
| "Site_key BDJOBS = js ''BDJOBS''"

text \<open>\<open>Object.values(Site)\<close>, in the order of declaration.\<close>

definition Site_values :: "Site list" where
  "Site_values =
     [LINKEDIN, INDEED, ZIP_RECRUITER, GLASSDOOR, GOOGLE, GOOGLE_CAREERS, BAYT, NAUKRI, BDJOBS]"

datatype JobType =
  FULL_TIME | PART_TIME | CONTRACT | TEMPORARY | INTERNSHIP | PER_DIEM | NIGHTS | OTHER
  | SUMMER | VOLUNTEER

fun JobType_value :: "JobType \<Rightarrow> jsstring" where
  "JobType_value FULL_TIME = js ''fulltime''"
| "JobType_value PART_TIME = js ''parttime''"
| "JobType_value CONTRACT = js ''contract''"
| "JobType_value TEMPORARY = js ''temporary''"
| "JobType_value INTERNSHIP = js ''internship''"
| "JobType_value PER_DIEM = js ''perdiem''"
| "JobType_value NIGHTS = js ''nights''"
| "JobType_value OTHER = js ''other''"
| "JobType_value SUMMER = js ''summer''"
| "JobType_value VOLUNTEER = js ''volunteer''"

definition JobType_values :: "JobType list" where
  "JobType_values =
     [FULL_TIME, PART_TIME, CONTRACT, TEMPORARY, INTERNSHIP, PER_DIEM, NIGHTS, OTHER, SUMMER,
      VOLUNTEER]"

datatype CompensationInterval = YEARLY | MONTHLY | WEEKLY | DAILY | HOURLY

fun CompensationInterval_value :: "CompensationInterval \<Rightarrow> jsstring" where
  "CompensationInterval_value YEARLY = js ''yearly''"
| "CompensationInterval_value MONTHLY = js ''monthly''"
| "CompensationInterval_value WEEKLY = js ''weekly''"
| "CompensationInterval_value DAILY = js ''daily''"
| "CompensationInterval_value HOURLY = js ''hourly''"

datatype DescriptionFormat = MARKDOWN | HTML | PLAIN

datatype SalarySource = DIRECT_DATA | DESCRIPTION

fun SalarySource_value :: "SalarySource \<Rightarrow> jsstring" where
  "SalarySource_value DIRECT_DATA = js ''direct_data''"
| "SalarySource_value DESCRIPTION = js ''description''"

section \<open>Salary inference\<close>

record ExtractedSalary =
  ext_interval :: jsstring
  ext_min_amount :: rat
  ext_max_amount :: rat
  ext_currency :: jsstring

record SalaryOpts =
  lowerLimit :: "rat option"
  upperLimit :: "rat option"
  hourlyThreshold :: "rat option"
  monthlyThreshold :: "rat option"
  enforceAnnual :: "bool option"

text \<open>
  The pattern of \<open>extractSalary\<close>:
  \<^verbatim>\<open>\$(\d+(?:,\d+)?(?:\.\d+)?)([kK]?)\s*[-\u2014\u2013]\s*(?:\$)?(\d+(?:,\d+)?(?:\.\d+)?)([kK]?)\<close>
  (the source writes the em dash and the en dash as characters).
\<close>

definition amount_rx :: rx where
  "amount_rx =
     Seq (Plus isDigit)
       (Seq (Opt (Seq (Unit (\<lambda>c. c = 44)) (Plus isDigit)))
            (Opt (Seq (Unit (\<lambda>c. c = 46)) (Plus isDigit))))"

definition kilo_rx :: rx where
  "kilo_rx = Opt (Unit (\<lambda>c. c = 107 \<or> c = 75))"

definition salary_pattern :: rx where
  "salary_pattern =
     Seq (Unit (\<lambda>c. c = 36))
    (Seq (Group 1 amount_rx)
    (Seq (Group 2 kilo_rx)
    (Seq (Star isSpace)
    (Seq (Unit (\<lambda>c. c = 45 \<or> c = 8212 \<or> c = 8211))
    (Seq (Star isSpace)
    (Seq (Opt (Unit (\<lambda>c. c = 36)))
    (Seq (Group 3 amount_rx)
         (Group 4 kilo_rx))))))))"

text \<open>
  \<open>toNum\<close>: \<open>parseFloat(s.replace(/,/g, ""))\<close>. The argument is a capture of \<open>amount_rx\<close>,
  so what \<open>parseFloat\<close> reads is a run of digits, then perhaps a dot and a run of digits.
\<close>

definition digits_value :: "jsstring \<Rightarrow> nat" where
  "digits_value ds = foldl (\<lambda>acc d. 10 * acc + (d - 48)) 0 ds"

definition parseFloat :: "jsstring \<Rightarrow> rat" where
  "parseFloat s =
     (let whole = takeWhile isDigit s;
          frac = (case dropWhile isDigit s of
                    [] \<Rightarrow> []
                  | c # r \<Rightarrow> if c = 46 then takeWhile isDigit r else [])
      in of_nat (digits_value whole) + of_nat (digits_value frac) / 10 ^ length frac)"

definition toNum :: "jsstring \<Rightarrow> rat" where
  "toNum s = parseFloat (filter (\<lambda>c. c \<noteq> 44) s)"

text \<open>
  The amounts read from the text, scaled by a thousand when either carries a \<open>k\<close>
  (\<open>minSalary\<close> and \<open>maxSalary\<close> of the source before the interval is chosen).
\<close>

definition salaryRange :: "jsstring \<Rightarrow> (rat \<times> rat) option" where
  "salaryRange text =
     (case rx_exec salary_pattern text of
        None \<Rightarrow> None
      | Some m \<Rightarrow>
          (let minSalary = toNum (grp m 1);
               maxSalary = toNum (grp m 3)
           in if toLowerCase (grp m 2) = js ''k'' \<or> toLowerCase (grp m 4) = js ''k''
              then Some (minSalary * 1000, maxSalary * 1000)
              else Some (minSalary, maxSalary)))"

text \<open>The destructuring defaults of the options.\<close>

definition opt_default :: "'a \<Rightarrow> 'a option \<Rightarrow> 'a" where
  "opt_default d v = (case v of None \<Rightarrow> d | Some x \<Rightarrow> x)"

text \<open>
  The interval chosen from the lower amount, with the two annual amounts; the upper one is
  \<open>None\<close> (\<open>undefined\<close>) when the upper amount is not below the threshold of the interval.
\<close>

definition classify :: "SalaryOpts \<Rightarrow> rat \<Rightarrow> rat \<Rightarrow> CompensationInterval \<times> rat \<times> rat option" where
  "classify opts minSalary maxSalary =
     (let hourlyT = opt_default 350 (hourlyThreshold opts);
          monthlyT = opt_default 30000 (monthlyThreshold opts)
      in if minSalary < hourlyT
         then (HOURLY, minSalary * 2080, if maxSalary < hourlyT then Some (maxSalary * 2080) else None)
         else if minSalary < monthlyT
         then (MONTHLY, minSalary * 12, if maxSalary < monthlyT then Some (maxSalary * 12) else None)
         else (YEARLY, minSalary, Some maxSalary))"

definition extractSalary :: "jsstring option \<Rightarrow> SalaryOpts \<Rightarrow> ExtractedSalary option" where
  "extractSalary text opts =
     (case text of
        None \<Rightarrow> None
      | Some t \<Rightarrow>
          if t = [] then None
          else
            (case salaryRange t of
               None \<Rightarrow> None
             | Some (minSalary, maxSalary) \<Rightarrow>
                 (case classify opts minSalary maxSalary of
                    (interval, annualMin, None) \<Rightarrow> None
                  | (interval, annualMin, Some annualMax) \<Rightarrow>
                      (let lower = opt_default 1000 (lowerLimit opts);
                           upper = opt_default 700000 (upperLimit opts)
                       in if annualMin < lower \<or> annualMin > upper \<or> annualMax < lower
                             \<or> annualMax > upper \<or> annualMin \<ge> annualMax
                          then None
                          else Some \<lparr> ext_interval = CompensationInterval_value interval,
                                      ext_min_amount =
                                        (if opt_default False (enforceAnnual opts) then annualMin
                                         else minSalary),
                                      ext_max_amount =
                                        (if opt_default False (enforceAnnual opts) then annualMax
                                         else maxSalary),
                                      ext_currency = js ''USD'' \<rparr>))))"

text \<open>The multipliers of \<open>convertToAnnual\<close>; \<open>yearly\<close> has no entry.\<close>

fun multipliers :: "CompensationInterval \<Rightarrow> rat option" where
  "multipliers HOURLY = Some 2080"
| "multipliers MONTHLY = Some 12"
| "multipliers WEEKLY = Some 52"
| "multipliers DAILY = Some 260"
| "multipliers YEARLY = None"

text \<open>The factor by which \<open>extractSalary\<close> turns an amount of the interval into an annual one.\<close>

fun annual_factor :: "CompensationInterval \<Rightarrow> rat" where
  "annual_factor HOURLY = 2080"
| "annual_factor MONTHLY = 12"
| "annual_factor i = 1"

section \<open>Records\<close>

text \<open>
  The interfaces. An optional property is an \<open>option\<close>: \<open>None\<close> is \<open>undefined\<close>.
  A \<open>number\<close> is a rational: the rounding of IEEE doubles is not modelled.
  The properties of \<open>FlatJobRecord\<close> carry the prefix \<open>flat_\<close>, those of \<open>Compensation\<close>
  the prefix \<open>comp_\<close>, those of \<open>ExtractedSalary\<close> the prefix \<open>ext_\<close>, since a record
  of HOL owns its field names.
\<close>

record Location =
  city :: "jsstring option"
  state :: "jsstring option"
  country :: "jsstring option"

record Compensation =
  comp_interval :: "CompensationInterval option"
  comp_min_amount :: "rat option"
  comp_max_amount :: "rat option"
  comp_currency :: "jsstring option"

record JobPost =
  post_id :: "jsstring option"
  title :: jsstring
  company_name :: "jsstring option"
  job_url :: jsstring
  job_url_direct :: "jsstring option"
  location :: "Location option"
  description :: "jsstring option"
  company_url :: "jsstring option"
  company_url_direct :: "jsstring option"
  job_type :: "JobType list option"
  compensation :: "Compensation option"
  date_posted :: "jsstring option"
  emails :: "jsstring list option"
  is_remote :: "bool option"
  listing_type :: "jsstring option"
  job_level :: "jsstring option"
  company_industry :: "jsstring option"
  company_addresses :: "jsstring option"
  company_num_employees :: "jsstring option"
  company_revenue :: "jsstring option"
  company_description :: "jsstring option"
  company_logo :: "jsstring option"
  banner_photo_url :: "jsstring option"
  job_function :: "jsstring option"
  skills :: "jsstring list option"
  experience_range :: "jsstring option"
  company_rating :: "rat option"
  company_reviews_count :: "rat option"
  vacancy_count :: "rat option"
  work_from_home_type :: "jsstring option"

record FlatJobRecord =
  flat_id :: "jsstring option"
  flat_site :: jsstring
  flat_job_url :: jsstring
  flat_job_url_direct :: "jsstring option"
  flat_title :: jsstring
  flat_company :: "jsstring option"
  flat_location :: "jsstring option"
  flat_date_posted :: "jsstring option"
  flat_job_type :: "jsstring option"
  flat_salary_source :: "jsstring option"
  flat_interval :: "jsstring option"
  flat_min_amount :: "rat option"
  flat_max_amount :: "rat option"
  flat_currency :: "jsstring option"
  flat_is_remote :: "bool option"
  flat_job_level :: "jsstring option"
  flat_job_function :: "jsstring option"
  flat_listing_type :: "jsstring option"
  flat_emails :: "jsstring option"
  flat_description :: "jsstring option"
  flat_company_industry :: "jsstring option"
  flat_company_url :: "jsstring option"
  flat_company_logo :: "jsstring option"
  flat_company_url_direct :: "jsstring option"
  flat_company_addresses :: "jsstring option"
  flat_company_num_employees :: "jsstring option"
  flat_company_revenue :: "jsstring option"
  flat_company_description :: "jsstring option"
  flat_skills :: "jsstring option"
  flat_experience_range :: "jsstring option"
  flat_company_rating :: "rat option"
  flat_company_reviews_count :: "rat option"
  flat_vacancy_count :: "rat option"
  flat_work_from_home_type :: "jsstring option"

record Country =
  name :: jsstring
  indeed_domain :: jsstring
  indeed_api_code :: jsstring
  glassdoor_domain :: "jsstring option"

text \<open>\<open>site_name\<close> of the parameters: one string (or \<open>Site\<close>, a string at run time) or an array.\<close>

datatype SiteSelection = One jsstring | Many "jsstring list"

record ScrapeJobsParams =
  p_site_name :: "SiteSelection option"
  p_search_term :: "jsstring option"
  p_google_search_term :: "jsstring option"
  p_location :: "jsstring option"
  p_distance :: "rat option"
  p_is_remote :: "bool option"
  p_job_type :: "jsstring option"
  p_easy_apply :: "bool option"
  p_results_wanted :: "int option"
  p_country_indeed :: "jsstring option"
  p_proxies :: "jsstring list option"
  p_description_format :: "jsstring option"
  p_linkedin_fetch_description :: "bool option"
  p_linkedin_company_ids :: "int list option"
  p_offset :: "int option"
  p_hours_old :: "rat option"
  p_enforce_annual_salary :: "bool option"
  p_verbose :: "int option"

text \<open>An object literal that sets no optional property.\<close>

definition emptyJob :: JobPost where
  "emptyJob =
     \<lparr> post_id = None, title = [], company_name = None, job_url = [], job_url_direct = None,
       location = None, description = None, company_url = None, company_url_direct = None,
       job_type = None, compensation = None, date_posted = None, emails = None,
       is_remote = None, listing_type = None, job_level = None, company_industry = None,
       company_addresses = None, company_num_employees = None, company_revenue = None,
       company_description = None, company_logo = None, banner_photo_url = None,
       job_function = None, skills = None, experience_range = None, company_rating = None,
       company_reviews_count = None, vacancy_count = None, work_from_home_type = None \<rparr>"

section \<open>Flattening\<close>

text \<open>A string is truthy when it is present and not empty.\<close>

definition truthy :: "jsstring option \<Rightarrow> bool" where
  "truthy v = (case v of None \<Rightarrow> False | Some t \<Rightarrow> t \<noteq> [])"

definition displayLocation :: "Location \<Rightarrow> jsstring" where
  "displayLocation loc =
     (let parts1 = (if truthy (city loc) then [the (city loc)] else []);
          parts2 = (if truthy (state loc) then parts1 @ [the (state loc)] else parts1);
          parts3 =
            (if truthy (country loc)
             then (let c = toLowerCase (the (country loc))
                   in if c = js ''usa'' \<or> c = js ''us'' \<or> c = js ''uk''
                      then parts2 @ [toUpperCase c]
                      else if c \<noteq> js ''worldwide'' \<and> c \<noteq> js ''usa/ca''
                      then parts2 @ [toUpperCase (take 1 c) @ drop 1 c]
                      else parts2)
             else parts2)
      in join (js '', '') parts3)"

text \<open>
  \<open>convertToAnnual\<close> on the flat record. It is called only with an interval that came from
  the compensation of the post, which is passed here as the enumeration member.
\<close>

definition convertToAnnual :: "CompensationInterval \<Rightarrow> FlatJobRecord \<Rightarrow> FlatJobRecord" where
  "convertToAnnual i r =
     (case multipliers i of
        None \<Rightarrow> r
      | Some m \<Rightarrow>
          r\<lparr> flat_min_amount := map_option (\<lambda>a. a * m) (flat_min_amount r),
             flat_max_amount := map_option (\<lambda>a. a * m) (flat_max_amount r),
             flat_interval := Some (js ''yearly'') \<rparr>)"

text \<open>The record literal with which \<open>flattenJob\<close> starts.\<close>

definition flattenBase :: "JobPost \<Rightarrow> jsstring \<Rightarrow> FlatJobRecord" where
  "flattenBase job site =
     \<lparr> flat_id = post_id job,
       flat_site = site,
       flat_job_url = job_url job,
       flat_job_url_direct = job_url_direct job,
       flat_title = title job,
       flat_company = company_name job,
       flat_location = map_option displayLocation (location job),
       flat_date_posted = date_posted job,
       flat_job_type = map_option (\<lambda>jts. join (js '', '') (map JobType_value jts)) (job_type job),
       flat_salary_source = None,
       flat_interval = None,
       flat_min_amount = None,
       flat_max_amount = None,
       flat_currency = None,
       flat_is_remote = is_remote job,
       flat_job_level = job_level job,
       flat_job_function = job_function job,
       flat_listing_type = listing_type job,
       flat_emails = map_option (join (js '', '')) (emails job),
       flat_description = description job,
       flat_company_industry = company_industry job,
       flat_company_url = company_url job,
       flat_company_logo = company_logo job,
       flat_company_url_direct = company_url_direct job,
       flat_company_addresses = company_addresses job,
       flat_company_num_employees = company_num_employees job,
       flat_company_revenue = company_revenue job,
       flat_company_description = company_description job,
       flat_skills = map_option (join (js '', '')) (skills job),
       flat_experience_range = experience_range job,
       flat_company_rating = company_rating job,
       flat_company_reviews_count = company_reviews_count job,
       flat_vacancy_count = vacancy_count job,
       flat_work_from_home_type = work_from_home_type job \<rparr>"

text \<open>\<open>job.compensation?.min_amount != null || job.compensation?.max_amount != null\<close>\<close>

definition hasAmount :: "JobPost \<Rightarrow> bool" where
  "hasAmount job =
     (case compensation job of
        None \<Rightarrow> False
      | Some c \<Rightarrow> comp_min_amount c \<noteq> None \<or> comp_max_amount c \<noteq> None)"

text \<open>
  \<open>flattenJob\<close>. \<open>countryName\<close> is \<open>country.name\<close> of the resolved country, \<open>None\<close> when that
  property is \<open>undefined\<close>; of the parameters the function reads \<open>enforce_annual_salary\<close> only.
\<close>

definition flattenJob :: "JobPost \<Rightarrow> jsstring \<Rightarrow> jsstring option \<Rightarrow> ScrapeJobsParams \<Rightarrow> FlatJobRecord" where
  "flattenJob job site countryName params =
     (let record = flattenBase job site;
          enforce = (p_enforce_annual_salary params = Some True);
          record =
            (if hasAmount job
             then
               (let c = the (compensation job);
                    record = record\<lparr> flat_interval := map_option CompensationInterval_value (comp_interval c),
                                     flat_min_amount := comp_min_amount c,
                                     flat_max_amount := comp_max_amount c,
                                     flat_currency := Some (opt_default (js ''USD'') (comp_currency c)),
                                     flat_salary_source := Some (SalarySource_value DIRECT_DATA) \<rparr>
                in if enforce \<and> comp_interval c \<noteq> None \<and> comp_interval c \<noteq> Some YEARLY
                      \<and> flat_min_amount record \<noteq> None \<and> flat_max_amount record \<noteq> None
                   then convertToAnnual (the (comp_interval c)) record
                   else record)
             else if countryName = Some (js ''usa'') \<or> countryName = Some (js ''us'')
             then
               (case extractSalary (description job)
                       \<lparr> lowerLimit = None, upperLimit = None, hourlyThreshold = None,
                         monthlyThreshold = None, enforceAnnual = p_enforce_annual_salary params \<rparr> of
                  None \<Rightarrow> record
                | Some extracted \<Rightarrow>
                    record\<lparr> flat_interval := Some (ext_interval extracted),
                            flat_min_amount := Some (ext_min_amount extracted),
                            flat_max_amount := Some (ext_max_amount extracted),
                            flat_currency := Some (ext_currency extracted),
                            flat_salary_source := Some (SalarySource_value DESCRIPTION) \<rparr>)
             else record)
      in if flat_min_amount record = None then record\<lparr> flat_salary_source := None \<rparr>
         else record)"

section \<open>Country registry\<close>

text \<open>
  \<open>COUNTRIES\<close> is a plain object used as a dictionary. Its own properties are kept in the
  order of insertion, which is the order of \<open>Object.keys\<close>; assigning to a key that is
  already there keeps its place.
\<close>

type_synonym 'a dict = "(jsstring \<times> 'a) list"

fun dict_set :: "jsstring \<Rightarrow> 'a \<Rightarrow> 'a dict \<Rightarrow> 'a dict" where
  "dict_set k v [] = [(k, v)]"
| "dict_set k v ((k', v') # kvs) =
     (if k' = k then (k, v) # kvs else (k', v') # dict_set k v kvs)"

text \<open>
  A property read \<open>obj[key]\<close> on a plain object finds the object's own property or, failing
  that, a member inherited from \<open>Object.prototype\<close>; it is \<open>undefined\<close> (\<open>None\<close>) only
  when neither exists. Every inherited member is a function or an object, hence truthy.
\<close>

definition Object_prototype_keys :: "jsstring list" where
  "Object_prototype_keys =
     map js [''constructor'', ''__defineGetter__'', ''__defineSetter__'', ''hasOwnProperty'',
             ''__lookupGetter__'', ''__lookupSetter__'', ''isPrototypeOf'',
             ''propertyIsEnumerable'', ''toString'', ''valueOf'', ''__proto__'',
             ''toLocaleString'']"

datatype 'a property = Own 'a | Inherited jsstring

definition dict_get :: "'a dict \<Rightarrow> jsstring \<Rightarrow> 'a property option" where
  "dict_get obj k =
     (case map_of obj k of
        Some v \<Rightarrow> Some (Own v)
      | None \<Rightarrow> if k \<in> set Object_prototype_keys then Some (Inherited k) else None)"

text \<open>
  \<open>addCountry\<close>: the list of names, the descriptor built from the arguments, and the loop
  that stores the descriptor under every name. The two parts of a \<open>"a:b"\<close> notation are the
  first two pieces of the split; the notation has a colon, so there are at least two.
  \<open>split\<close> never returns an empty array, so \<open>nameList[0]\<close> is there.
\<close>

definition split_pair :: "jsstring \<Rightarrow> jsstring \<times> jsstring" where
  "split_pair s = (case split_on 58 s of a # b # _ \<Rightarrow> (a, b) | _ \<Rightarrow> (s, []))"

definition nameList_of :: "jsstring \<Rightarrow> jsstring list" where
  "nameList_of names = map (\<lambda>n. toLowerCase (trim n)) (split_on 44 names)"

definition descriptor :: "jsstring \<Rightarrow> jsstring \<Rightarrow> jsstring option \<Rightarrow> Country" where
  "descriptor names indeedDomain glassdoorDomain =
     (let nameList = nameList_of names;
          (domain, apiCode) =
            (if 58 \<in> set indeedDomain then split_pair indeedDomain
             else (indeedDomain, toUpperCase indeedDomain));
          gdDomain =
            (if truthy glassdoorDomain
             then (let g = the glassdoorDomain;
                       (sub, tld) = (if 58 \<in> set g then split_pair g else (js ''www'', g))
                   in if tld \<noteq> [] then Some (sub @ js ''.glassdoor.'' @ tld)
                      else Some (js ''www.glassdoor.'' @ g))
             else None)
      in \<lparr> name = hd nameList, indeed_domain = domain,
           indeed_api_code = toUpperCase apiCode, glassdoor_domain = gdDomain \<rparr>)"

definition addCountry :: "jsstring \<Rightarrow> jsstring \<Rightarrow> jsstring option \<Rightarrow> Country dict \<Rightarrow> Country dict" where
  "addCountry names indeedDomain glassdoorDomain countries =
     foldl (\<lambda>cs n. dict_set n (descriptor names indeedDomain glassdoorDomain) cs) countries
       (nameList_of names)"

text \<open>The registrations, in the order of the source. The one letter outside ASCII is \<open>U+00FC\<close>.\<close>

definition registrations :: "(jsstring \<times> jsstring \<times> jsstring option) list" where
  "registrations =
     [(js ''argentina'', js ''ar'', Some (js ''com.ar'')),
      (js ''australia'', js ''au'', Some (js ''com.au'')),
      (js ''austria'', js ''at'', Some (js ''at'')),
      (js ''bahrain'', js ''bh'', None),
      (js ''bangladesh'', js ''bd'', None),
      (js ''belgium'', js ''be'', Some (js ''fr:be'')),
      (js ''brazil'', js ''br'', Some (js ''com.br'')),
      (js ''canada'', js ''ca'', Some (js ''ca'')),
      (js ''chile'', js ''cl'', None),
      (js ''china'', js ''cn'', None),
      (js ''colombia'', js ''co'', None),
      (js ''costa rica'', js ''cr'', None),
      (js ''czech republic,czechia'', js ''cz'', None),
      (js ''denmark'', js ''dk'', None),
      (js ''ecuador'', js ''ec'', None),
      (js ''egypt'', js ''eg'', None),
      (js ''finland'', js ''fi'', None),
      (js ''france'', js ''fr'', Some (js ''fr'')),
      (js ''germany'', js ''de'', Some (js ''de'')),
      (js ''greece'', js ''gr'', None),
      (js ''hong kong'', js ''hk'', Some (js ''com.hk'')),
      (js ''hungary'', js ''hu'', None),
      (js ''india'', js ''in'', Some (js ''co.in'')),
      (js ''indonesia'', js ''id'', None),
      (js ''ireland'', js ''ie'', Some (js ''ie'')),
      (js ''israel'', js ''il'', None),
      (js ''italy'', js ''it'', Some (js ''it'')),
      (js ''japan'', js ''jp'', None),
      (js ''kuwait'', js ''kw'', None),
      (js ''luxembourg'', js ''lu'', None),
      (js ''malaysia'', js ''malaysia:my'', Some (js ''com'')),
      (js ''mexico'', js ''mx'', Some (js ''com.mx'')),
      (js ''morocco'', js ''ma'', None),
      (js ''netherlands'', js ''nl'', Some (js ''nl'')),
      (js ''new zealand'', js ''nz'', Some (js ''co.nz'')),
      (js ''nigeria'', js ''ng'', None),
      (js ''norway'', js ''no'', None),
      (js ''oman'', js ''om'', None),
      (js ''pakistan'', js ''pk'', None),
      (js ''panama'', js ''pa'', None),
      (js ''peru'', js ''pe'', None),
      (js ''philippines'', js ''ph'', None),
      (js ''poland'', js ''pl'', None),
      (js ''portugal'', js ''pt'', None),
      (js ''qatar'', js ''qa'', None),
      (js ''romania'', js ''ro'', None),
      (js ''saudi arabia'', js ''sa'', None),
      (js ''singapore'', js ''sg'', Some (js ''sg'')),
      (js ''south africa'', js ''za'', None),
      (js ''south korea'', js ''kr'', None),
      (js ''spain'', js ''es'', Some (js ''es'')),
      (js ''sweden'', js ''se'', None),
      (js ''switzerland'', js ''ch'', Some (js ''de:ch'')),
      (js ''taiwan'', js ''tw'', None),
      (js ''thailand'', js ''th'', None),
      (js ''t'' @ [252] @ js ''rkiye,turkey'', js ''tr'', None),
      (js ''ukraine'', js ''ua'', None),
      (js ''united arab emirates'', js ''ae'', None),
      (js ''uk,united kingdom'', js ''uk:gb'', Some (js ''co.uk'')),
      (js ''usa,us,united states'', js ''www:us'', Some (js ''com'')),
      (js ''uruguay'', js ''uy'', None),
      (js ''venezuela'', js ''ve'', None),
      (js ''vietnam'', js ''vn'', Some (js ''com'')),
      (js ''usa/ca'', js ''www'', None),
      (js ''worldwide'', js ''www'', None)]"

definition COUNTRIES :: "Country dict" where
  "COUNTRIES = foldl (\<lambda>cs (names, d, g). addCountry names d g cs) [] registrations"

datatype error =
    UnknownSite jsstring
  | InvalidCountry jsstring "jsstring list"
  | InvalidJobType jsstring

text \<open>The message of the error; for a country it lists the keys of \<open>COUNTRIES\<close>.\<close>

fun message :: "error \<Rightarrow> jsstring" where
  "message (UnknownSite n) = js ''Unknown site: '' @ n"
| "message (InvalidCountry n keys) =
     js ''Invalid country: '' @ [39] @ n @ [39] @ js ''. Valid countries: '' @ join (js '', '') keys"
| "message (InvalidJobType jt) = js ''Invalid job type: '' @ jt"

definition getCountry :: "jsstring \<Rightarrow> error + Country property" where
  "getCountry nm =
     (let key = toLowerCase (trim nm)
      in case dict_get COUNTRIES key of
           None \<Rightarrow> Inl (InvalidCountry nm (map fst COUNTRIES))
         | Some found \<Rightarrow> Inr found)"

text \<open>
  \<open>country.name\<close> of what \<open>getCountry\<close> returned. The constructor inherited from
  \<open>Object.prototype\<close> is the function \<open>Object\<close>, whose \<open>name\<close> is its own name like that of
  the inherited methods; \<open>Object.prototype\<close> itself (\<open>__proto__\<close>) has no \<open>name\<close>.
\<close>

fun country_name :: "Country property \<Rightarrow> jsstring option" where
  "country_name (Own c) = Some (name c)"
| "country_name (Inherited k) =
     (if k = js ''constructor'' then Some (js ''Object'')
      else if k = js ''__proto__'' then None
      else Some k)"

section \<open>Orchestrator\<close>

text \<open>
  \<open>mapStrToSite\<close>. The first lookup is by the declared name of the member. (The object of
  the enumeration inherits from \<open>Object.prototype\<close> too, but the key is in upper case
  and every inherited name has a lower-case letter.)
\<close>

definition mapStrToSite :: "jsstring \<Rightarrow> error + Site" where
  "mapStrToSite nm =
     (let upper = toUpperCase nm
      in case find (\<lambda>s. Site_key s = upper) Site_values of
           Some site \<Rightarrow> Inr site
         | None \<Rightarrow>
             (let normalized = filter (\<lambda>c. \<not> (c = 95 \<or> isSpace c \<or> c = 45)) (toLowerCase nm)
              in case find (\<lambda>s. Site_value s = toLowerCase nm
                                \<or> filter (\<lambda>c. c \<noteq> 95) (Site_value s) = normalized) Site_values of
                   Some s \<Rightarrow> Inr s
                 | None \<Rightarrow> Inl (UnknownSite nm)))"

text \<open>Mapping a function that may throw over an array: the first error ends the call.\<close>

fun map_throwing :: "('a \<Rightarrow> error + 'b) \<Rightarrow> 'a list \<Rightarrow> error + 'b list" where
  "map_throwing f [] = Inr []"
| "map_throwing f (x # xs) =
     (case f x of
        Inl e \<Rightarrow> Inl e
      | Inr y \<Rightarrow> (case map_throwing f xs of Inl e \<Rightarrow> Inl e | Inr ys \<Rightarrow> Inr (y # ys)))"

definition resolveSites :: "SiteSelection option \<Rightarrow> error + Site list" where
  "resolveSites siteName =
     (case siteName of
        None \<Rightarrow> Inr Site_values
      | Some (One s) \<Rightarrow>
          if s = [] then Inr Site_values
          else (case mapStrToSite s of Inl e \<Rightarrow> Inl e | Inr site \<Rightarrow> Inr [site])
      | Some (Many ss) \<Rightarrow> map_throwing mapStrToSite ss)"

definition resolveJobType :: "jsstring option \<Rightarrow> error + JobType option" where
  "resolveJobType jt =
     (if \<not> truthy jt then Inr None
      else (case find (\<lambda>t. JobType_value t = the jt) JobType_values of
              Some t \<Rightarrow> Inr (Some t)
            | None \<Rightarrow> Inl (InvalidJobType (the jt))))"

record ScraperInput =
  in_site_type :: "Site list"
  in_search_term :: "jsstring option"
  in_google_search_term :: "jsstring option"
  in_location :: "jsstring option"
  in_country :: "Country property option"
  in_distance :: "rat option"
  in_is_remote :: "bool option"
  in_job_type :: "JobType option"
  in_easy_apply :: "bool option"
  in_offset :: "int option"
  in_linkedin_fetch_description :: "bool option"
  in_linkedin_company_ids :: "int list option"
  in_description_format :: "jsstring option"
  in_results_wanted :: "int option"
  in_hours_old :: "rat option"

text \<open>
  The adapter classes of the repository, and \<open>SCRAPER_MAP\<close>, which registers eight of them:
  it has no entry for \<open>Site.GOOGLE_CAREERS\<close>, and \<open>scraper.ts\<close> does not import the
  class \<open>GoogleCareers\<close>.
\<close>

datatype ScraperClass =
  Indeed | LinkedIn | Glassdoor | Google | ZipRecruiter | Bayt | Naukri | BDJobs | GoogleCareers

fun SCRAPER_MAP :: "Site \<Rightarrow> ScraperClass option" where
  "SCRAPER_MAP INDEED = Some Indeed"
| "SCRAPER_MAP LINKEDIN = Some LinkedIn"
| "SCRAPER_MAP GLASSDOOR = Some Glassdoor"
| "SCRAPER_MAP GOOGLE = Some Google"
| "SCRAPER_MAP ZIP_RECRUITER = Some ZipRecruiter"
| "SCRAPER_MAP BAYT = Some Bayt"
| "SCRAPER_MAP NAUKRI = Some Naukri"
| "SCRAPER_MAP BDJOBS = Some BDJobs"
| "SCRAPER_MAP GOOGLE_CAREERS = None"

text \<open>
  What an adapter does depends on the job board it talks to. \<open>world cls input\<close> is the
  outcome of \<open>new cls({proxies}).scrape(input)\<close>: the jobs of the response, or \<open>None\<close>
  when the call throws or its promise rejects.
\<close>

type_synonym world = "ScraperClass \<Rightarrow> ScraperInput \<Rightarrow> JobPost list option"

text \<open>
  One element of \<open>Promise.allSettled(sites.map(...))\<close>. \<open>new ScraperClass(...)\<close> on a site
  without an entry in the map throws a \<open>TypeError\<close> inside the asynchronous callback, so
  that promise rejects. \<open>close\<close> is an \<open>async\<close> method whose rejection is caught: the
  \<open>finally\<close> block does not change the outcome.
\<close>

definition dispatch :: "world \<Rightarrow> ScraperInput \<Rightarrow> Site \<Rightarrow> JobPost list option" where
  "dispatch world scraperInput site =
     (case SCRAPER_MAP site of
        None \<Rightarrow> None
      | Some ScraperClass \<Rightarrow> world ScraperClass scraperInput)"

text \<open>
  \<open>Array.prototype.sort\<close> with a comparison function is a stable sort. For a comparison
  that is a total preorder the result does not depend on the algorithm; it is written here as
  an insertion from the right, which puts an element before the first one it does not follow.
\<close>

fun insert_by :: "('a \<Rightarrow> 'a \<Rightarrow> int) \<Rightarrow> 'a \<Rightarrow> 'a list \<Rightarrow> 'a list" where
  "insert_by cmp x [] = [x]"
| "insert_by cmp x (y # ys) = (if cmp x y \<le> 0 then x # y # ys else y # insert_by cmp x ys)"

definition sort_by :: "('a \<Rightarrow> 'a \<Rightarrow> int) \<Rightarrow> 'a list \<Rightarrow> 'a list" where
  "sort_by cmp xs = foldr (insert_by cmp) xs []"

text \<open>The comparison function of \<open>scrapeJobs\<close>.\<close>

definition compareJobs :: "FlatJobRecord \<Rightarrow> FlatJobRecord \<Rightarrow> int" where
  "compareJobs a b =
     (let siteCmp = localeCompare (flat_site a) (flat_site b)
      in if siteCmp \<noteq> 0 then siteCmp
         else (let aDate = opt_default [] (flat_date_posted a);
                   bDate = opt_default [] (flat_date_posted b)
               in localeCompare bDate aDate))"

definition buildInput :: "ScrapeJobsParams \<Rightarrow> Site list \<Rightarrow> Country property \<Rightarrow> JobType option \<Rightarrow> ScraperInput" where
  "buildInput params sites ctry jobType =
     \<lparr> in_site_type = sites,
       in_search_term = p_search_term params,
       in_google_search_term = p_google_search_term params,
       in_location = p_location params,
       in_country = Some ctry,
       in_distance = Some (opt_default 50 (p_distance params)),
       in_is_remote = Some (opt_default False (p_is_remote params)),
       in_job_type = jobType,
       in_easy_apply = p_easy_apply params,
       in_offset = Some (opt_default 0 (p_offset params)),
       in_linkedin_fetch_description =
         Some (opt_default False (p_linkedin_fetch_description params)),
       in_linkedin_company_ids = p_linkedin_company_ids params,
       in_description_format = Some (opt_default (js ''markdown'') (p_description_format params)),
       in_results_wanted = Some (opt_default 15 (p_results_wanted params)),
       in_hours_old = p_hours_old params \<rparr>"

text \<open>The flat records of the fulfilled results, in the order of the sites (rejected ones skipped).\<close>

definition collect :: "ScrapeJobsParams \<Rightarrow> jsstring option \<Rightarrow> (Site \<times> JobPost list option) list \<Rightarrow> FlatJobRecord list" where
  "collect params countryName results =
     concat (map (\<lambda>(site, result).
                    case result of
                      None \<Rightarrow> []
                    | Some jobs \<Rightarrow> map (\<lambda>job. flattenJob job (Site_value site) countryName params) jobs)
                 results)"

definition scrapeJobs :: "ScrapeJobsParams \<Rightarrow> world \<Rightarrow> error + FlatJobRecord list" where
  "scrapeJobs params world =
     (case resolveSites (p_site_name params) of
        Inl e \<Rightarrow> Inl e
      | Inr sites \<Rightarrow>
     (case getCountry (opt_default (js ''usa'') (p_country_indeed params)) of
        Inl e \<Rightarrow> Inl e
      | Inr ctry \<Rightarrow>
     (case resolveJobType (p_job_type params) of
        Inl e \<Rightarrow> Inl e
      | Inr jobType \<Rightarrow>
          (let scraperInput = buildInput params sites ctry jobType;
               results = map (\<lambda>site. (site, dispatch world scraperInput site)) sites;
               flatJobs = collect params (country_name ctry) results
           in Inr (sort_by compareJobs flatJobs)))))"

section \<open>The Bayt adapter\<close>

text \<open>
  What the selectors of \<open>extractJobInfo\<close> find in one \<open>li[data-js-job]\<close> element: the text
  of its \<open>h2\<close> (\<open>None\<close> without an \<open>h2\<close>), the \<open>href\<close> of the link inside it (\<open>None\<close>
  without a link or without the attribute), and the texts of the company and location tags.
\<close>

record BaytElement =
  el_h2 :: "jsstring option"
  el_href :: "jsstring option"
  el_company :: jsstring
  el_location :: jsstring

text \<open>\<open>hashCode\<close>: the arithmetic is that of 32-bit integers (\<open>hash |= 0\<close> after every step).\<close>

definition hashCode :: "jsstring \<Rightarrow> 32 word" where
  "hashCode str = foldl (\<lambda>hash c. push_bit 5 hash - hash + of_nat c) 0 str"

text \<open>The decimal digits of a natural number, as \<open>String(n)\<close> prints them.\<close>

fun decimal :: "nat \<Rightarrow> jsstring" where
  "decimal n = (if n < 10 then [48 + n] else decimal (n div 10) @ [48 + n mod 10])"

declare decimal.simps [simp del]

definition nonempty :: "jsstring \<Rightarrow> jsstring option" where
  "nonempty t = (if t = [] then None else Some t)"

definition extractJobInfo :: "BaytElement \<Rightarrow> JobPost option" where
  "extractJobInfo el =
     (case el_h2 el of
        None \<Rightarrow> None
      | Some h2 \<Rightarrow>
          if \<not> truthy (el_href el) then None
          else
            (let jobUrl = js ''https://www.bayt.com'' @ trim (the (el_href el))
             in Some (emptyJob
                  \<lparr> post_id := Some (js ''bayt-'' @ decimal (nat \<bar>sint (hashCode jobUrl)\<bar>)),
                    title := trim h2,
                    company_name := nonempty (trim (el_company el)),
                    location := Some \<lparr> city = nonempty (trim (el_location el)), state = None,
                                       country = Some (js ''worldwide'') \<rparr>,
                    job_url := jobUrl \<rparr>)))"

text \<open>The \<open>for\<close> loop over the elements of one page.\<close>

fun bayt_page :: "BaytElement list \<Rightarrow> int \<Rightarrow> JobPost list \<Rightarrow> JobPost list" where
  "bayt_page [] resultsWanted jobList = jobList"
| "bayt_page (el # els) resultsWanted jobList =
     (case extractJobInfo el of
        None \<Rightarrow> bayt_page els resultsWanted jobList
      | Some job \<Rightarrow>
          if int (length (jobList @ [job])) \<ge> resultsWanted then jobList @ [job]
          else bayt_page els resultsWanted (jobList @ [job]))"

text \<open>
  The \<open>while\<close> loop. \<open>fetchJobs page\<close> is what the site returns for the page (no elements
  when the request fails). Every round that goes on has added a job, so the loop ends.
\<close>

function bayt_loop :: "(nat \<Rightarrow> BaytElement list) \<Rightarrow> int \<Rightarrow> nat \<Rightarrow> JobPost list \<Rightarrow> JobPost list" where
  "bayt_loop fetchJobs resultsWanted page jobList =
     (if int (length jobList) < resultsWanted
      then (let elements = fetchJobs page
            in if elements = [] then jobList
               else (let jobList' = bayt_page elements resultsWanted jobList
                     in if length jobList' = length jobList then jobList'
                        else bayt_loop fetchJobs resultsWanted (page + 1) jobList'))
      else jobList)"
  by pat_completeness auto
termination
proof (relation "measure (\<lambda>(fetchJobs, resultsWanted, page, jobList).
                            nat (resultsWanted - int (length jobList)))")
  show "wf (measure (\<lambda>(fetchJobs, resultsWanted, page, jobList).
                       nat (resultsWanted - int (length jobList))))"
    by simp
next
  fix fetchJobs :: "nat \<Rightarrow> BaytElement list" and resultsWanted :: int and page :: nat
    and jobList jobList' :: "JobPost list" and elements :: "BaytElement list"
  assume more: "int (length jobList) < resultsWanted"
    and page: "jobList' = bayt_page elements resultsWanted jobList"
    and grew: "length jobList' \<noteq> length jobList"
  have "length jobList \<le> length (bayt_page els rw jl)" if "length jobList \<le> length jl"
    for els rw jl
    using that by (induction els rw jl rule: bayt_page.induct) (auto split: option.splits)
  then have "length jobList \<le> length jobList'"
    using page by simp
  with grew more
  show "((fetchJobs, resultsWanted, page + 1, jobList'), (fetchJobs, resultsWanted, page, jobList))
          \<in> measure (\<lambda>(fetchJobs, resultsWanted, page, jobList).
                        nat (resultsWanted - int (length jobList)))"
    by simp
qed

declare bayt_loop.simps [simp del]

text \<open>\<open>jobList.slice(0, end)\<close>; a negative end counts from the end of the array.\<close>

definition slice0 :: "'a list \<Rightarrow> int \<Rightarrow> 'a list" where
  "slice0 xs e = (if e < 0 then take (nat (int (length xs) + e)) xs else take (nat e) xs)"

definition Bayt_scrape :: "(jsstring \<Rightarrow> nat \<Rightarrow> BaytElement list) \<Rightarrow> ScraperInput \<Rightarrow> JobPost list" where
  "Bayt_scrape fetchJobs input =
     (let resultsWanted = opt_default 10 (in_results_wanted input);
          jobList = bayt_loop (fetchJobs (opt_default [] (in_search_term input))) resultsWanted 1 []
      in slice0 jobList resultsWanted)"

section \<open>The shared request object\<close>

text \<open>
  \<open>scrapeJobs\<close> builds one \<open>ScraperInput\<close> object and passes the reference to every adapter.
  The heap holds that object and the adapter instances; an address is an index into it.
  Of an adapter instance the heap keeps the fields that \<open>scrape\<close> and the methods it calls
  assign: \<open>scraper_input\<close> is a reference to a request object. (The country and the
  arrays inside a request are values here; no adapter assigns to them either.)
\<close>

type_synonym addr = nat

record AdapterFields =
  ad_scraper_input :: "addr option"
  ad_proxyIndex :: nat
  ad_session :: "nat option"
  ad_baseUrl :: jsstring
  ad_apiCountryCode :: jsstring
  ad_seenUrls :: "jsstring list"

datatype obj = Request ScraperInput | Adapter AdapterFields

type_synonym heap = "obj list"

definition heap_get :: "heap \<Rightarrow> addr \<Rightarrow> obj option" where
  "heap_get h a = (if a < length h then Some (h ! a) else None)"

text \<open>An assignment to a field of the instance \<open>this\<close>.\<close>

definition set_this :: "addr \<Rightarrow> (AdapterFields \<Rightarrow> AdapterFields) \<Rightarrow> heap \<Rightarrow> heap" where
  "set_this this f h =
     (case heap_get h this of
        Some (Adapter fs) \<Rightarrow> h[this := Adapter (f fs)]
      | _ \<Rightarrow> h)"

text \<open>
  The statements of the adapters that write to the heap:
  \<^item> \<open>InitSession s advance\<close>: \<open>initSession\<close> of \<open>base.ts\<close>, that is
    \<open>this.proxyRotator.next()\<close>, which advances the index of the instance's own rotator when
    it has proxies (\<open>advance\<close>), and \<open>this.session = await createHttpSession(...)\<close>;
  \<^item> \<open>KeepInput\<close>: \<open>this.scraper_input = input\<close>, which makes the field an alias of the
    shared object (Indeed, LinkedIn, ZipRecruiter, Naukri, BDJobs);
  \<^item> \<open>CopyInput cap\<close>:
    \<open>this.scraper_input = { ...input, results_wanted: Math.min(cap, input.results_wanted ?? 15) }\<close>,
    a new object (Glassdoor and Google with 900, GoogleCareers with 1000);
  \<^item> \<open>SetBaseUrl\<close>, \<open>SetApiCountryCode\<close>: \<open>this.baseUrl = ...\<close>, \<open>this.apiCountryCode = ...\<close>;
  \<^item> \<open>ClearSeen\<close>, \<open>AddSeen\<close>: \<open>this.seenUrls.clear()\<close>, \<open>this.seenUrls.add(jobUrl)\<close>;
  \<^item> \<open>WriteInput f\<close>: an assignment \<open>this.scraper_input.p = v\<close> through the reference,
    which changes the object the field points to. The language has it, and it is here to
    give the heap its meaning; the statements of the adapters (\<open>scrape_stmts\<close> below) have
    no assignment to a property of \<open>input\<close> or of \<open>this.scraper_input\<close>.
\<close>

datatype stmt =
    InitSession nat bool
  | KeepInput
  | CopyInput int
  | SetBaseUrl jsstring
  | SetApiCountryCode jsstring
  | ClearSeen
  | AddSeen jsstring
  | WriteInput "ScraperInput \<Rightarrow> ScraperInput"

fun exec :: "addr \<Rightarrow> addr \<Rightarrow> stmt \<Rightarrow> heap \<Rightarrow> heap" where
  "exec this input (InitSession s advance) h =
     set_this this (\<lambda>f. f\<lparr>ad_proxyIndex := (if advance then ad_proxyIndex f + 1 else ad_proxyIndex f),
                            ad_session := Some s\<rparr>) h"
| "exec this input KeepInput h = set_this this (\<lambda>f. f\<lparr>ad_scraper_input := Some input\<rparr>) h"
| "exec this input (CopyInput cap) h =
     (case heap_get h input of
        Some (Request r) \<Rightarrow>
          (let copy = r\<lparr>in_results_wanted := Some (min cap (opt_default 15 (in_results_wanted r)))\<rparr>;
               a = length h
           in set_this this (\<lambda>f. f\<lparr>ad_scraper_input := Some a\<rparr>) (h @ [Request copy]))
      | _ \<Rightarrow> h)"
| "exec this input (SetBaseUrl u) h = set_this this (\<lambda>f. f\<lparr>ad_baseUrl := u\<rparr>) h"
| "exec this input (SetApiCountryCode c) h = set_this this (\<lambda>f. f\<lparr>ad_apiCountryCode := c\<rparr>) h"
| "exec this input ClearSeen h = set_this this (\<lambda>f. f\<lparr>ad_seenUrls := []\<rparr>) h"
| "exec this input (AddSeen u) h =
     set_this this (\<lambda>f. f\<lparr>ad_seenUrls := (if u \<in> set (ad_seenUrls f) then ad_seenUrls f
                                             else ad_seenUrls f @ [u])\<rparr>) h"
| "exec this input (WriteInput f) h =
     (case heap_get h this of
        Some (Adapter fs) \<Rightarrow>
          (case ad_scraper_input fs of
             None \<Rightarrow> h
           | Some a \<Rightarrow> (case heap_get h a of Some (Request r) \<Rightarrow> h[a := Request (f r)] | _ \<Rightarrow> h))
      | _ \<Rightarrow> h)"

text \<open>
  What one run of an adapter depends on besides the request: the session it is given,
  whether it was constructed with proxies, the addresses it builds, the URLs it meets in the
  order it meets them, and how far it gets before it returns or throws (\<open>rd_steps\<close>
  statements).
\<close>

record RunData =
  rd_session :: nat
  rd_proxies :: bool
  rd_baseUrl :: jsstring
  rd_apiCountryCode :: jsstring
  rd_urls :: "jsstring list"
  rd_steps :: nat

text \<open>The heap-writing statements of \<open>scrape\<close>, per class, in the order of the source.\<close>

fun scrape_stmts :: "ScraperClass \<Rightarrow> RunData \<Rightarrow> stmt list" where
  "scrape_stmts Indeed d =
     [InitSession (rd_session d) (rd_proxies d), KeepInput, SetBaseUrl (rd_baseUrl d),
      SetApiCountryCode (rd_apiCountryCode d), ClearSeen] @ map AddSeen (rd_urls d)"
| "scrape_stmts Glassdoor d =
     [InitSession (rd_session d) (rd_proxies d), CopyInput 900, SetBaseUrl (rd_baseUrl d), ClearSeen]
     @ map AddSeen (rd_urls d)"
| "scrape_stmts Google d =
     [InitSession (rd_session d) (rd_proxies d), CopyInput 900, ClearSeen] @ map AddSeen (rd_urls d)"
| "scrape_stmts GoogleCareers d = [InitSession (rd_session d) (rd_proxies d), CopyInput 1000]"
| "scrape_stmts ZipRecruiter d =
     [InitSession (rd_session d) (rd_proxies d), KeepInput, ClearSeen] @ map AddSeen (rd_urls d)"
| "scrape_stmts LinkedIn d = [InitSession (rd_session d) (rd_proxies d), KeepInput]"
| "scrape_stmts Naukri d = [InitSession (rd_session d) (rd_proxies d), KeepInput]"
| "scrape_stmts BDJobs d = [InitSession (rd_session d) (rd_proxies d), KeepInput]"
| "scrape_stmts Bayt d = [InitSession (rd_session d) (rd_proxies d)]"

text \<open>
  A running adapter: its instance and the statements it has still to execute. The adapters
  run concurrently; a schedule says whose statement comes next.
\<close>

record invocation =
  inv_this :: addr
  inv_todo :: "stmt list"

fun run :: "addr \<Rightarrow> nat list \<Rightarrow> invocation list \<Rightarrow> heap \<Rightarrow> heap" where
  "run input [] invs h = h"
| "run input (k # schedule) invs h =
     (if k < length invs
      then (case inv_todo (invs ! k) of
              [] \<Rightarrow> run input schedule invs h
            | s # rest \<Rightarrow>
                run input schedule (invs[k := (invs ! k)\<lparr>inv_todo := rest\<rparr>])
                  (exec (inv_this (invs ! k)) input s h))
      else run input schedule invs h)"

definition newAdapter :: obj where
  "newAdapter =
     Adapter \<lparr> ad_scraper_input = None, ad_proxyIndex = 0, ad_session = None, ad_baseUrl = [],
               ad_apiCountryCode = [], ad_seenUrls = [] \<rparr>"

text \<open>
  The heap after \<open>scrapeJobs\<close> has built the request and constructed the adapters (the
  request at address \<open>0\<close>, the instances after it), and the invocations it dispatches.
\<close>

definition dispatched_heap :: "ScraperInput \<Rightarrow> (ScraperClass \<times> RunData) list \<Rightarrow> heap" where
  "dispatched_heap scraperInput adapters = Request scraperInput # map (\<lambda>_. newAdapter) adapters"

definition dispatched_invocations :: "(ScraperClass \<times> RunData) list \<Rightarrow> invocation list" where
  "dispatched_invocations adapters =
     map (\<lambda>(i, (cls, d)). \<lparr> inv_this = Suc i, inv_todo = take (rd_steps d) (scrape_stmts cls d) \<rparr>)
         (enumerate 0 adapters)"

section \<open>Auxiliary functions\<close>

text \<open>
  The descriptor that the registrations leave under a key: that of the last registration
  that names it. Used to read \<open>COUNTRIES\<close> without building the whole table.
\<close>

fun registered :: "jsstring \<Rightarrow> (jsstring \<times> jsstring \<times> jsstring option) list \<Rightarrow> Country option \<Rightarrow> Country option" where
  "registered key [] found = found"
| "registered key ((names, d, g) # regs) found =
     registered key regs (if key \<in> set (nameList_of names) then Some (descriptor names d g) else found)"

text \<open>The groups that a pattern sets on every path through it.\<close>

fun binds :: "rx \<Rightarrow> nat set" where
  "binds (Group k r) = insert k (binds r)"
| "binds (Seq r1 r2) = binds r1 \<union> binds r2"
| "binds r = {}"

text \<open>The statements that assign through the reference to a request object.\<close>

fun writes_through :: "stmt \<Rightarrow> bool" where
  "writes_through (WriteInput f) = True"
| "writes_through s = False"

section \<open>Examples\<close>

text \<open>The texts of the string-valued properties that a flat record has.\<close>

definition present :: "'a option list \<Rightarrow> 'a list" where
  "present vs = concat (map (\<lambda>v. case v of None \<Rightarrow> [] | Some x \<Rightarrow> [x]) vs)"

definition flat_strings :: "FlatJobRecord \<Rightarrow> jsstring list" where
  "flat_strings r =
     [flat_site r, flat_job_url r, flat_title r]
     @ present
         [flat_id r, flat_job_url_direct r, flat_company r, flat_location r, flat_date_posted r,
          flat_job_type r, flat_salary_source r, flat_interval r, flat_currency r,
          flat_job_level r, flat_job_function r, flat_listing_type r, flat_emails r,
          flat_description r, flat_company_industry r, flat_company_url r, flat_company_logo r,
          flat_company_url_direct r, flat_company_addresses r, flat_company_num_employees r,
          flat_company_revenue r, flat_company_description r, flat_skills r,
          flat_experience_range r, flat_work_from_home_type r]"

definition example_params :: ScrapeJobsParams where
  "example_params =
     \<lparr> p_site_name = None, p_search_term = None, p_google_search_term = None,
       p_location = None, p_distance = None, p_is_remote = None, p_job_type = None,
       p_easy_apply = None, p_results_wanted = None, p_country_indeed = None, p_proxies = None,
       p_description_format = None, p_linkedin_fetch_description = None,
       p_linkedin_company_ids = None, p_offset = None, p_hours_old = None,
       p_enforce_annual_salary = None, p_verbose = None \<rparr>"

definition example_post :: JobPost where
  "example_post =
     emptyJob
       \<lparr> title := js ''Engineer'',
         job_url := js ''https://example.com/jobs/1'',
         company_name := Some (js ''Acme''),
         banner_photo_url := Some (js ''https://example.com/banner.png''),
         compensation := Some \<lparr> comp_interval = Some YEARLY, comp_min_amount = Some 100000,
                                  comp_max_amount = None, comp_currency = None \<rparr> \<rparr>"

definition example_opts :: SalaryOpts where
  "example_opts = \<lparr> lowerLimit = None, upperLimit = None, hourlyThreshold = Some 350,
                      monthlyThreshold = None, enforceAnnual = None \<rparr>"

text \<open>
  A run in which one of two requested adapters fails: Indeed returns one post, the
  LinkedIn adapter throws.
\<close>

definition partial_params :: ScrapeJobsParams where
  "partial_params = example_params \<lparr> p_site_name := Some (Many [js ''indeed'', js ''linkedin'']) \<rparr>"

definition partial_world :: world where
  "partial_world cls scraperInput = (if cls = Indeed then Some [example_post] else None)"

definition partial_result :: "FlatJobRecord list" where
  "partial_result = [flattenJob example_post (js ''indeed'') (Some (js ''usa'')) partial_params]"

text \<open>A post whose compensation has an upper amount only.\<close>

definition max_only_post :: JobPost where
  "max_only_post =
     emptyJob
       \<lparr> title := js ''Engineer'',
         job_url := js ''https://example.com/jobs/2'',
         compensation := Some \<lparr> comp_interval = Some YEARLY, comp_min_amount = None,
                                  comp_max_amount = Some 90000, comp_currency = None \<rparr> \<rparr>"

text \<open>The descriptor registered for the default country.\<close>

definition usa :: Country where
  "usa = \<lparr> name = js ''usa'', indeed_domain = js ''www'', indeed_api_code = js ''US'',
           glassdoor_domain = Some (js ''www.glassdoor.com'') \<rparr>"

text \<open>A run with no site selection in which every adapter that is constructed returns a post.\<close>

definition every_world :: world where
  "every_world cls scraperInput = Some [example_post]"

text \<open>A run with posts of two sites, with and without dates.\<close>

definition dated :: "jsstring \<Rightarrow> jsstring option \<Rightarrow> JobPost" where
  "dated url d = emptyJob \<lparr> title := js ''Engineer'', job_url := url, date_posted := d \<rparr>"

definition order_params :: ScrapeJobsParams where
  "order_params = example_params \<lparr> p_site_name := Some (Many [js ''indeed'', js ''bayt'']) \<rparr>"

definition order_world :: world where
  "order_world cls scraperInput =
     (if cls = Indeed
      then Some [dated (js ''i1'') (Some (js ''2024-01-01'')), dated (js ''i2'') None,
                 dated (js ''i3'') (Some (js ''2024-03-01''))]
      else if cls = Bayt then Some [dated (js ''b1'') (Some (js ''2025-06-30''))]
      else None)"

definition order_result :: "FlatJobRecord list" where
  "order_result =
     [flattenJob (dated (js ''b1'') (Some (js ''2025-06-30''))) (js ''bayt'') (Some (js ''usa'')) order_params,
      flattenJob (dated (js ''i3'') (Some (js ''2024-03-01''))) (js ''indeed'') (Some (js ''usa'')) order_params,
      flattenJob (dated (js ''i1'') (Some (js ''2024-01-01''))) (js ''indeed'') (Some (js ''usa'')) order_params,
      flattenJob (dated (js ''i2'') None) (js ''indeed'') (Some (js ''usa'')) order_params]"

text \<open>
  A run of the Bayt adapter in which the site lists the same job on the first and on the
  second page of the results.
\<close>

definition bayt_listing :: BaytElement where
  "bayt_listing =
     \<lparr> el_h2 = Some (js ''Engineer''), el_href = Some (js ''/en/uae/jobs/engineer-1/''),
       el_company = js ''Acme'', el_location = js ''Dubai'' \<rparr>"

definition repeated_fetch :: "jsstring \<Rightarrow> nat \<Rightarrow> BaytElement list" where
  "repeated_fetch query page = (if page = 1 \<or> page = 2 then [bayt_listing] else [])"

definition bayt_input :: ScraperInput where
  "bayt_input = buildInput example_params [BAYT] (Own usa) None"

text \<open>A post without compensation whose description names a salary range.\<close>

definition inferred_post :: JobPost where
  "inferred_post =
     emptyJob
       \<lparr> title := js ''Engineer'',
         job_url := js ''https://example.com/jobs/3'',
         description := Some (js ''$50 - $70 per hour'') \<rparr>"

text \<open>
  A post whose compensation has an interval and a currency but no amount (the Indeed adapter
  builds such a compensation when the source gives a unit of work without a range).
\<close>

definition interval_only_post :: JobPost where
  "interval_only_post =
     emptyJob
       \<lparr> title := js ''Engineer'',
         job_url := js ''https://example.com/jobs/4'',
         compensation := Some \<lparr> comp_interval = Some YEARLY, comp_min_amount = None,
                                  comp_max_amount = None, comp_currency = Some (js ''EUR'') \<rparr> \<rparr>"

text \<open>A post paid by the hour, and parameters that ask for annual amounts.\<close>

definition hourly_post :: JobPost where
  "hourly_post =
     emptyJob
       \<lparr> title := js ''Engineer'',
         job_url := js ''https://example.com/jobs/5'',
         compensation := Some \<lparr> comp_interval = Some HOURLY, comp_min_amount = Some 20,
                                  comp_max_amount = Some 30, comp_currency = Some (js ''USD'') \<rparr> \<rparr>"

definition annual_params :: ScrapeJobsParams where
  "annual_params = example_params \<lparr> p_enforce_annual_salary := Some True \<rparr>"

text \<open>The options with which \<open>flattenJob\<close> calls \<open>extractSalary\<close>.\<close>

definition flatten_opts :: "ScrapeJobsParams \<Rightarrow> SalaryOpts" where
  "flatten_opts params =
     \<lparr> lowerLimit = None, upperLimit = None, hourlyThreshold = None, monthlyThreshold = None,
       enforceAnnual = p_enforce_annual_salary params \<rparr>"

section \<open>Properties\<close>

subsection \<open>Salary inference\<close>

lemma rx_match_binds:
  assumes "(c', rest) \<in> set (rx_match r s c)" "k \<in> binds r \<union> dom (map_of c)"
  shows "k \<in> dom (map_of c')"
  using assms
proof (induction r arbitrary: s c c' rest)
  case (Unit p)
  then show ?case by (auto split: list.splits if_splits)
next
  case (Star p)
  then show ?case by (auto simp: runs_def)
next
  case (Plus p)
  then show ?case by (auto simp: runs_def)
next
  case (Opt r)
  from Opt.prems(1) consider "(c', rest) \<in> set (rx_match r s c)" | "c' = c"
    by auto
  then show ?case
  proof cases
    case 1
    from Opt.prems(2) have "k \<in> binds r \<union> dom (map_of c)" by simp
    with Opt.IH 1 show ?thesis by blast
  next
    case 2
    with Opt.prems(2) show ?thesis by simp
  qed
next
  case (Seq r1 r2)
  from Seq.prems(1) obtain c1 s1 where first: "(c1, s1) \<in> set (rx_match r1 s c)"
    and second: "(c', rest) \<in> set (rx_match r2 s1 c1)"
    by auto
  show ?case
  proof (cases "k \<in> binds r2")
    case True
    with Seq.IH(2) second show ?thesis by blast
  next
    case False
    with Seq.prems(2) have "k \<in> binds r1 \<union> dom (map_of c)" by simp
    with Seq.IH(1) first have "k \<in> dom (map_of c1)" by blast
    with Seq.IH(2) second show ?thesis by blast
  qed
next
  case (Group g r)
  from Group.prems(1) obtain c1 where inner: "(c1, rest) \<in> set (rx_match r s c)"
    and c': "c' = (g, take (length s - length rest) s) # c1"
    by auto
  show ?case
  proof (cases "k = g")
    case True
    with c' show ?thesis by (simp add: dom_def)
  next
    case False
    with Group.prems(2) have "k \<in> binds r \<union> dom (map_of c)" by simp
    with Group.IH inner have "k \<in> dom (map_of c1)" by blast
    with c' False show ?thesis by auto
  qed
qed

lemma rx_exec_binds:
  assumes "rx_exec r s = Some m" "k \<in> binds r"
  shows "k \<in> dom (map_of m)"
  using assms
proof (induction s)
  case Nil
  show ?case
  proof (cases "rx_match r [] []")
    case Nil
    with Nil.prems(1) show ?thesis by simp
  next
    case (Cons hit hits)
    with Nil.prems(1) have "(m, snd hit) \<in> set (rx_match r [] [])"
      by (cases hit) auto
    with Nil.prems(2) rx_match_binds show ?thesis by blast
  qed
next
  case (Cons x xs)
  show ?case
  proof (cases "rx_match r (x # xs) []")
    case Nil
    with Cons show ?thesis by simp
  next
    case (Cons hit hits)
    with Cons.prems(1) have "(m, snd hit) \<in> set (rx_match r (x # xs) [])"
      by (cases hit) auto
    with Cons.prems(2) rx_match_binds show ?thesis by blast
  qed
qed

lemma salary_pattern_groups:
  assumes "rx_exec salary_pattern text = Some m"
  shows "{1, 2, 3, 4} \<subseteq> dom (map_of m)"
proof -
  have "binds salary_pattern = {1, 2, 3, 4}"
    by (auto simp: salary_pattern_def amount_rx_def kilo_rx_def)
  with rx_exec_binds [OF assms] show ?thesis by blast
qed

lemma salary_pattern_example:
  "rx_exec salary_pattern (js ''$50 - $70 per hour'') =
     Some [(4, []), (3, js ''70''), (2, []), (1, js ''50'')]"
  by (simp add: js_def salary_pattern_def amount_rx_def kilo_rx_def runs_def isDigit_def isSpace_def)

lemma salaryRange_example: "salaryRange (js ''$50 - $70 per hour'') = Some (50, 70)"
  unfolding salaryRange_def salary_pattern_example
  by (simp add: grp_def toNum_def parseFloat_def digits_value_def isDigit_def js_def
      toLowerCase_def lowerUnit_def)

lemma classify_example: "classify example_opts 50 70 = (HOURLY, 104000, Some 145600)"
  by (simp add: classify_def example_opts_def opt_default_def)

lemma extractSalary_example:
  "extractSalary (Some (js ''$50 - $70 per hour'')) example_opts =
     Some \<lparr> ext_interval = CompensationInterval_value HOURLY, ext_min_amount = 50,
            ext_max_amount = 70, ext_currency = js ''USD'' \<rparr>"
proof -
  have nonempty: "js ''$50 - $70 per hour'' \<noteq> []"
    by (simp add: js_def)
  show ?thesis
    unfolding extractSalary_def
    by (simp add: nonempty salaryRange_example classify_example)
       (simp add: example_opts_def opt_default_def)
qed

text \<open>
  Claim C5. \<open>extractSalary\<close> applied to the text \<open>"$50 - $70 per hour"\<close> with
  \<open>hourlyThreshold = 350\<close> and the other options at their defaults returns a result with the
  interval hourly: the range read from the text is 50 to 70, it is classified as hourly, the
  annual amounts are \<open>50 * 2080 = 104000\<close> and \<open>70 * 2080 = 145600\<close>, and both lie within the
  default bounds 1000 and 700000.
\<close>

theorem extractSalary_hourly_example:
  "extractSalary (Some (js ''$50 - $70 per hour'')) example_opts =
     Some \<lparr> ext_interval = CompensationInterval_value HOURLY, ext_min_amount = 50,
            ext_max_amount = 70, ext_currency = js ''USD'' \<rparr>
   \<and> salaryRange (js ''$50 - $70 per hour'') = Some (50, 70)
   \<and> classify example_opts 50 70 = (HOURLY, 50 * 2080, Some (70 * 2080))
   \<and> (50 * 2080 :: rat) = 104000 \<and> (70 * 2080 :: rat) = 145600
   \<and> opt_default 1000 (lowerLimit example_opts) \<le> 104000
   \<and> 145600 \<le> opt_default 700000 (upperLimit example_opts)"
proof -
  have "opt_default 1000 (lowerLimit example_opts) \<le> (104000 :: rat)"
    and "(145600 :: rat) \<le> opt_default 700000 (upperLimit example_opts)"
    by (simp_all add: example_opts_def opt_default_def)
  then show ?thesis
    using extractSalary_example salaryRange_example classify_example by simp
qed

lemma classify_cases:
  assumes "classify opts mn mx = (i, aMin, Some aMax)"
  shows "aMin = mn * annual_factor i \<and> aMax = mx * annual_factor i \<and> 0 < annual_factor i"
  using assms by (auto simp: classify_def Let_def split: if_splits)

text \<open>
  Claim C4. For every text and every set of options, \<open>extractSalary\<close> returns nothing or a
  complete result. In a result the lower amount is below the upper one, and the annual
  amounts (the amounts read from the text times the factor of the chosen interval) both lie
  within the bounds \<open>lowerLimit\<close> and \<open>upperLimit\<close> of the options (1000 and 700000 by
  default). The result carries the annual amounts when \<open>enforceAnnual\<close> is set and the
  amounts of the text otherwise.
\<close>

theorem extractSalary_range_within_window:
  assumes "extractSalary text opts = Some r"
  shows "\<exists>t minSalary maxSalary i.
           text = Some t \<and> salaryRange t = Some (minSalary, maxSalary)
         \<and> i = fst (classify opts minSalary maxSalary)
         \<and> ext_interval r = CompensationInterval_value i \<and> ext_currency r = js ''USD''
         \<and> ext_min_amount r < ext_max_amount r
         \<and> opt_default 1000 (lowerLimit opts) \<le> minSalary * annual_factor i
         \<and> minSalary * annual_factor i \<le> opt_default 700000 (upperLimit opts)
         \<and> opt_default 1000 (lowerLimit opts) \<le> maxSalary * annual_factor i
         \<and> maxSalary * annual_factor i \<le> opt_default 700000 (upperLimit opts)
         \<and> ext_min_amount r =
             (if opt_default False (enforceAnnual opts) then minSalary * annual_factor i
              else minSalary)
         \<and> ext_max_amount r =
             (if opt_default False (enforceAnnual opts) then maxSalary * annual_factor i
              else maxSalary)"
proof -
  from assms obtain t where t: "text = Some t" "t \<noteq> []"
    by (auto simp: extractSalary_def split: option.splits if_splits)
  from assms t obtain mn mx where range: "salaryRange t = Some (mn, mx)"
    by (auto simp: extractSalary_def split: option.splits if_splits)
  from assms t range obtain i aMin aMax where cl: "classify opts mn mx = (i, aMin, Some aMax)"
    by (auto simp: extractSalary_def split: option.splits if_splits prod.splits)
  from classify_cases [OF cl]
  have annual: "aMin = mn * annual_factor i" "aMax = mx * annual_factor i" "0 < annual_factor i"
    by simp_all
  let ?lower = "opt_default 1000 (lowerLimit opts)"
  let ?upper = "opt_default 700000 (upperLimit opts)"
  from assms t range cl
  have checks: "\<not> aMin < ?lower" "\<not> aMin > ?upper" "\<not> aMax < ?lower" "\<not> aMax > ?upper"
      "\<not> aMin \<ge> aMax"
    and r: "r = \<lparr> ext_interval = CompensationInterval_value i,
                 ext_min_amount = (if opt_default False (enforceAnnual opts) then aMin else mn),
                 ext_max_amount = (if opt_default False (enforceAnnual opts) then aMax else mx),
                 ext_currency = js ''USD'' \<rparr>"
    by (auto simp: extractSalary_def Let_def split: if_splits)
  have b1: "?lower \<le> mn * annual_factor i" using checks(1) annual(1) by simp
  have b2: "mn * annual_factor i \<le> ?upper" using checks(2) annual(1) by simp
  have b3: "?lower \<le> mx * annual_factor i" using checks(3) annual(2) by simp
  have b4: "mx * annual_factor i \<le> ?upper" using checks(4) annual(2) by simp
  have ann: "mn * annual_factor i < mx * annual_factor i" using checks(5) annual by simp
  with annual(3) have raw: "mn < mx"
    by (simp add: mult_less_cancel_right)
  have ordered: "ext_min_amount r < ext_max_amount r"
    using r raw ann annual by simp
  have fields: "ext_interval r = CompensationInterval_value i" "ext_currency r = js ''USD''"
    "ext_min_amount r =
       (if opt_default False (enforceAnnual opts) then mn * annual_factor i else mn)"
    "ext_max_amount r =
       (if opt_default False (enforceAnnual opts) then mx * annual_factor i else mx)"
    using r annual by simp_all
  have i: "i = fst (classify opts mn mx)" using cl by simp
  show ?thesis
    using t(1) range i fields(1,2) ordered b1 b2 b3 b4 fields(3,4) by blast
qed

theorem extractSalary_range_within_window_witness:
  "extractSalary (Some (js ''$50 - $70 per hour'')) example_opts =
     Some \<lparr> ext_interval = CompensationInterval_value HOURLY, ext_min_amount = 50,
            ext_max_amount = 70, ext_currency = js ''USD'' \<rparr>
   \<and> (\<exists>minSalary maxSalary.
         salaryRange (js ''$50 - $70 per hour'') = Some (minSalary, maxSalary)
       \<and> opt_default 1000 (lowerLimit example_opts)
            \<le> minSalary * annual_factor (fst (classify example_opts minSalary maxSalary))
       \<and> maxSalary * annual_factor (fst (classify example_opts minSalary maxSalary))
            \<le> opt_default 700000 (upperLimit example_opts))"
  using extractSalary_range_within_window [OF extractSalary_example] extractSalary_example
  by auto

subsection \<open>Flattening\<close>

lemma flattenJob_salary_source:
  "(flat_salary_source (flattenJob job site countryName params) = None)
     = (flat_min_amount (flattenJob job site countryName params) = None)"
  by (simp add: flattenJob_def flattenBase_def convertToAnnual_def Let_def
      split: option.splits)

lemma flattenJob_only_max:
  assumes "compensation job = Some c" "comp_min_amount c = None" "comp_max_amount c = Some m"
  shows "flat_max_amount (flattenJob job site countryName params) = Some m
       \<and> flat_interval (flattenJob job site countryName params)
           = map_option CompensationInterval_value (comp_interval c)
       \<and> flat_min_amount (flattenJob job site countryName params) = None
       \<and> flat_salary_source (flattenJob job site countryName params) = None"
  using assms by (simp add: flattenJob_def flattenBase_def hasAmount_def Let_def)

lemma extractSalary_default_example:
  "extractSalary (Some (js ''$50 - $70 per hour'')) (flatten_opts example_params) =
     Some \<lparr> ext_interval = CompensationInterval_value HOURLY, ext_min_amount = 50,
            ext_max_amount = 70, ext_currency = js ''USD'' \<rparr>"
proof -
  have nonempty: "js ''$50 - $70 per hour'' \<noteq> []"
    by (simp add: js_def)
  have cl: "classify (flatten_opts example_params) 50 70 = (HOURLY, 104000, Some 145600)"
    by (simp add: classify_def flatten_opts_def opt_default_def)
  show ?thesis
    unfolding extractSalary_def
    by (simp add: nonempty salaryRange_example cl)
       (simp add: flatten_opts_def example_params_def opt_default_def)
qed

text \<open>
  Claim C3, as stated: every field present on a \<open>JobPost\<close> appears on its flat record, and
  every absent optional field stays absent. It fails on the code in four ways.
  \<open>FlatJobRecord\<close> has no property for \<open>banner_photo_url\<close>: the example post has one, and
  its text is the value of no property of the flat record. A compensation with an amount but
  without a currency is flattened with the currency \<open>USD\<close>. A post without compensation
  whose description names a salary range is flattened, for the country \<open>usa\<close>, with the
  amounts read from the description. And the interval and the currency of a compensation
  that has no amount are left out of the flat record.
\<close>

theorem flattenJob_not_field_for_field:
  "banner_photo_url example_post = Some (js ''https://example.com/banner.png'')
   \<and> js ''https://example.com/banner.png''
         \<notin> set (flat_strings (flattenJob example_post (js ''indeed'') (Some (js ''usa'')) example_params))
   \<and> comp_currency (the (compensation example_post)) = None
   \<and> flat_currency (flattenJob example_post (js ''indeed'') (Some (js ''usa'')) example_params)
       = Some (js ''USD'')
   \<and> compensation inferred_post = None
   \<and> flat_min_amount (flattenJob inferred_post (js ''indeed'') (Some (js ''usa'')) example_params)
       = Some 50
   \<and> flat_currency (flattenJob inferred_post (js ''indeed'') (Some (js ''usa'')) example_params)
       = Some (js ''USD'')
   \<and> comp_interval (the (compensation interval_only_post)) = Some YEARLY
   \<and> comp_currency (the (compensation interval_only_post)) = Some (js ''EUR'')
   \<and> flat_interval (flattenJob interval_only_post (js ''indeed'') (Some (js ''usa'')) example_params)
       = None
   \<and> flat_currency (flattenJob interval_only_post (js ''indeed'') (Some (js ''usa'')) example_params)
       = None"
proof -
  have first: "banner_photo_url example_post = Some (js ''https://example.com/banner.png'')
   \<and> js ''https://example.com/banner.png''
         \<notin> set (flat_strings (flattenJob example_post (js ''indeed'') (Some (js ''usa'')) example_params))
   \<and> comp_currency (the (compensation example_post)) = None
   \<and> flat_currency (flattenJob example_post (js ''indeed'') (Some (js ''usa'')) example_params)
       = Some (js ''USD'')"
    by (simp add: example_post_def emptyJob_def example_params_def flattenJob_def flattenBase_def
        hasAmount_def flat_strings_def present_def opt_default_def js_def)
  have opts: "\<lparr> lowerLimit = None, upperLimit = None, hourlyThreshold = None,
               monthlyThreshold = None, enforceAnnual = p_enforce_annual_salary example_params \<rparr>
             = flatten_opts example_params"
    by (simp add: flatten_opts_def)
  have inferred: "compensation inferred_post = None"
    "description inferred_post = Some (js ''$50 - $70 per hour'')"
    by (simp_all add: inferred_post_def emptyJob_def)
  have second:
    "flat_min_amount (flattenJob inferred_post (js ''indeed'') (Some (js ''usa'')) example_params)
       = Some 50"
    "flat_currency (flattenJob inferred_post (js ''indeed'') (Some (js ''usa'')) example_params)
       = Some (js ''USD'')"
    unfolding flattenJob_def opts
    by (simp_all add: inferred hasAmount_def extractSalary_default_example Let_def flattenBase_def)
  have third: "comp_interval (the (compensation interval_only_post)) = Some YEARLY"
    "comp_currency (the (compensation interval_only_post)) = Some (js ''EUR'')"
    "flat_interval (flattenJob interval_only_post (js ''indeed'') (Some (js ''usa'')) example_params)
       = None"
    "flat_currency (flattenJob interval_only_post (js ''indeed'') (Some (js ''usa'')) example_params)
       = None"
    by (simp_all add: interval_only_post_def emptyJob_def flattenJob_def flattenBase_def
        hasAmount_def extractSalary_def Let_def)
  show ?thesis
    using first inferred(1) second third by simp
qed

text \<open>
  Claim C3, amended to what \<open>flattenJob\<close> does, for every post.
  \<^item> The properties \<open>id\<close>, \<open>job_url\<close>, \<open>job_url_direct\<close>, \<open>title\<close>, \<open>company_name\<close> (as
    \<open>company\<close>), \<open>date_posted\<close>, \<open>is_remote\<close>, \<open>job_level\<close>, \<open>job_function\<close>, \<open>listing_type\<close>,
    \<open>description\<close>, the company properties, \<open>experience_range\<close>, the ratings and counts and
    \<open>work_from_home_type\<close> are copied as they are, present or absent; \<open>location\<close>,
    \<open>job_type\<close>, \<open>emails\<close> and \<open>skills\<close> are present exactly when they are on the post, as the
    display string or the joined list; \<open>banner_photo_url\<close> is not carried over.
  \<^item> When the compensation has a lower or an upper amount: the currency is that of the post
    or \<open>USD\<close>; the interval and each amount are present exactly when they are on the post;
    \<open>salary_source\<close> is \<open>direct_data\<close> when the lower amount is present and absent
    otherwise. With \<open>enforce_annual_salary\<close>, an interval other than yearly and both amounts
    present, the interval becomes yearly and both amounts are multiplied by the factor of the
    interval; in every other case the interval and the amounts are those of the post.
  \<^item> When it has neither amount and the country is \<open>usa\<close> or \<open>us\<close>: the five salary
    properties are those of the result of \<open>extractSalary\<close> on the description, with the
    source \<open>description\<close>, and all absent when it returns nothing.
  \<^item> When it has neither amount and there is no description, or the country is another one:
    the five salary properties are absent.
\<close>

theorem flattenJob_fields:
  assumes "r = flattenJob job site countryName params"
  shows "flat_id r = post_id job \<and> flat_site r = site \<and> flat_job_url r = job_url job
       \<and> flat_job_url_direct r = job_url_direct job \<and> flat_title r = title job
       \<and> flat_company r = company_name job \<and> flat_date_posted r = date_posted job
       \<and> flat_is_remote r = is_remote job \<and> flat_job_level r = job_level job
       \<and> flat_job_function r = job_function job \<and> flat_listing_type r = listing_type job
       \<and> flat_description r = description job
       \<and> flat_company_industry r = company_industry job
       \<and> flat_company_url r = company_url job \<and> flat_company_logo r = company_logo job
       \<and> flat_company_url_direct r = company_url_direct job
       \<and> flat_company_addresses r = company_addresses job
       \<and> flat_company_num_employees r = company_num_employees job
       \<and> flat_company_revenue r = company_revenue job
       \<and> flat_company_description r = company_description job
       \<and> flat_experience_range r = experience_range job
       \<and> flat_company_rating r = company_rating job
       \<and> flat_company_reviews_count r = company_reviews_count job
       \<and> flat_vacancy_count r = vacancy_count job
       \<and> flat_work_from_home_type r = work_from_home_type job
       \<and> flat_location r = map_option displayLocation (location job)
       \<and> flat_job_type r
           = map_option (\<lambda>jts. join (js '', '') (map JobType_value jts)) (job_type job)
       \<and> flat_emails r = map_option (join (js '', '')) (emails job)
       \<and> flat_skills r = map_option (join (js '', '')) (skills job)
       \<and> (\<forall>c. compensation job = Some c
              \<and> (comp_min_amount c \<noteq> None \<or> comp_max_amount c \<noteq> None)
            \<longrightarrow> flat_currency r = Some (opt_default (js ''USD'') (comp_currency c))
              \<and> (flat_interval r = None) = (comp_interval c = None)
              \<and> (flat_min_amount r = None) = (comp_min_amount c = None)
              \<and> (flat_max_amount r = None) = (comp_max_amount c = None)
              \<and> flat_salary_source r
                  = (if comp_min_amount c = None then None
                     else Some (SalarySource_value DIRECT_DATA))
              \<and> (\<forall>i m a b.
                     p_enforce_annual_salary params = Some True \<and> comp_interval c = Some i
                     \<and> multipliers i = Some m
                     \<and> comp_min_amount c = Some a \<and> comp_max_amount c = Some b
                   \<longrightarrow> flat_interval r = Some (CompensationInterval_value YEARLY)
                     \<and> flat_min_amount r = Some (a * m) \<and> flat_max_amount r = Some (b * m))
              \<and> (p_enforce_annual_salary params \<noteq> Some True \<or> comp_interval c = None
                   \<or> comp_interval c = Some YEARLY
                   \<or> comp_min_amount c = None \<or> comp_max_amount c = None
                   \<longrightarrow> flat_interval r = map_option CompensationInterval_value (comp_interval c)
                     \<and> flat_min_amount r = comp_min_amount c
                     \<and> flat_max_amount r = comp_max_amount c))
       \<and> (\<not> hasAmount job \<and> (countryName = Some (js ''usa'') \<or> countryName = Some (js ''us''))
            \<longrightarrow> (case extractSalary (description job) (flatten_opts params) of
                   None \<Rightarrow>
                     flat_interval r = None \<and> flat_min_amount r = None \<and> flat_max_amount r = None
                     \<and> flat_currency r = None \<and> flat_salary_source r = None
                 | Some extracted \<Rightarrow>
                     flat_interval r = Some (ext_interval extracted)
                     \<and> flat_min_amount r = Some (ext_min_amount extracted)
                     \<and> flat_max_amount r = Some (ext_max_amount extracted)
                     \<and> flat_currency r = Some (ext_currency extracted)
                     \<and> flat_salary_source r = Some (SalarySource_value DESCRIPTION)))
       \<and> (\<not> hasAmount job
            \<and> (\<not> truthy (description job)
                \<or> (countryName \<noteq> Some (js ''usa'') \<and> countryName \<noteq> Some (js ''us'')))
            \<longrightarrow> flat_interval r = None \<and> flat_min_amount r = None \<and> flat_max_amount r = None
              \<and> flat_currency r = None \<and> flat_salary_source r = None)"
proof -
  have base: "flat_id r = post_id job \<and> flat_site r = site \<and> flat_job_url r = job_url job
       \<and> flat_job_url_direct r = job_url_direct job \<and> flat_title r = title job
       \<and> flat_company r = company_name job \<and> flat_date_posted r = date_posted job
       \<and> flat_is_remote r = is_remote job \<and> flat_job_level r = job_level job
       \<and> flat_job_function r = job_function job \<and> flat_listing_type r = listing_type job
       \<and> flat_description r = description job
       \<and> flat_company_industry r = company_industry job
       \<and> flat_company_url r = company_url job \<and> flat_company_logo r = company_logo job
       \<and> flat_company_url_direct r = company_url_direct job
       \<and> flat_company_addresses r = company_addresses job
       \<and> flat_company_num_employees r = company_num_employees job
       \<and> flat_company_revenue r = company_revenue job
       \<and> flat_company_description r = company_description job
       \<and> flat_experience_range r = experience_range job
       \<and> flat_company_rating r = company_rating job
       \<and> flat_company_reviews_count r = company_reviews_count job
       \<and> flat_vacancy_count r = vacancy_count job
       \<and> flat_work_from_home_type r = work_from_home_type job
       \<and> flat_location r = map_option displayLocation (location job)
       \<and> flat_job_type r
           = map_option (\<lambda>jts. join (js '', '') (map JobType_value jts)) (job_type job)
       \<and> flat_emails r = map_option (join (js '', '')) (emails job)
       \<and> flat_skills r = map_option (join (js '', '')) (skills job)"
    unfolding assms
    by (simp add: flattenJob_def flattenBase_def convertToAnnual_def Let_def
        split: option.splits)
  have yearly: "multipliers i = Some m \<Longrightarrow> i \<noteq> YEARLY" for i m
    by (cases i) auto
  have factor: "i \<noteq> YEARLY \<Longrightarrow> \<exists>m. multipliers i = Some m" for i
    by (cases i) auto
  have direct: "flat_currency r = Some (opt_default (js ''USD'') (comp_currency c))
              \<and> (flat_interval r = None) = (comp_interval c = None)
              \<and> (flat_min_amount r = None) = (comp_min_amount c = None)
              \<and> (flat_max_amount r = None) = (comp_max_amount c = None)
              \<and> flat_salary_source r
                  = (if comp_min_amount c = None then None
                     else Some (SalarySource_value DIRECT_DATA))
              \<and> (\<forall>i m a b.
                     p_enforce_annual_salary params = Some True \<and> comp_interval c = Some i
                     \<and> multipliers i = Some m
                     \<and> comp_min_amount c = Some a \<and> comp_max_amount c = Some b
                   \<longrightarrow> flat_interval r = Some (CompensationInterval_value YEARLY)
                     \<and> flat_min_amount r = Some (a * m) \<and> flat_max_amount r = Some (b * m))
              \<and> (p_enforce_annual_salary params \<noteq> Some True \<or> comp_interval c = None
                   \<or> comp_interval c = Some YEARLY
                   \<or> comp_min_amount c = None \<or> comp_max_amount c = None
                   \<longrightarrow> flat_interval r = map_option CompensationInterval_value (comp_interval c)
                     \<and> flat_min_amount r = comp_min_amount c
                     \<and> flat_max_amount r = comp_max_amount c)"
    if c: "compensation job = Some c" "comp_min_amount c \<noteq> None \<or> comp_max_amount c \<noteq> None" for c
  proof -
    have amount: "hasAmount job"
      using c by (simp add: hasAmount_def)
    show ?thesis
    proof (cases "p_enforce_annual_salary params = Some True \<and> comp_interval c \<noteq> None
                  \<and> comp_interval c \<noteq> Some YEARLY
                  \<and> comp_min_amount c \<noteq> None \<and> comp_max_amount c \<noteq> None")
      case True
      then obtain i a b where i: "comp_interval c = Some i" "i \<noteq> YEARLY"
        and ab: "comp_min_amount c = Some a" "comp_max_amount c = Some b"
        by auto
      from factor [OF i(2)] obtain m where m: "multipliers i = Some m" ..
      from True have enforce: "p_enforce_annual_salary params = Some True" by simp
      have "flat_currency r = Some (opt_default (js ''USD'') (comp_currency c))"
        "flat_interval r = Some (CompensationInterval_value YEARLY)"
        "flat_min_amount r = Some (a * m)" "flat_max_amount r = Some (b * m)"
        "flat_salary_source r = Some (SalarySource_value DIRECT_DATA)"
        unfolding assms
        by (simp_all add: flattenJob_def flattenBase_def convertToAnnual_def Let_def amount c(1)
            i ab m enforce)
      with i ab m enforce show ?thesis
        by simp
    next
      case False
      then have "flat_currency r = Some (opt_default (js ''USD'') (comp_currency c))"
        "flat_interval r = map_option CompensationInterval_value (comp_interval c)"
        "flat_min_amount r = comp_min_amount c" "flat_max_amount r = comp_max_amount c"
        "flat_salary_source r
           = (if comp_min_amount c = None then None else Some (SalarySource_value DIRECT_DATA))"
        unfolding assms
        by (auto simp: flattenJob_def flattenBase_def Let_def amount c(1))
      with False yearly show ?thesis
        by auto
    qed
  qed
  have opts: "\<lparr> lowerLimit = None, upperLimit = None, hourlyThreshold = None,
               monthlyThreshold = None, enforceAnnual = p_enforce_annual_salary params \<rparr>
             = flatten_opts params"
    by (simp add: flatten_opts_def)
  have inferred: "case extractSalary (description job) (flatten_opts params) of
                   None \<Rightarrow>
                     flat_interval r = None \<and> flat_min_amount r = None \<and> flat_max_amount r = None
                     \<and> flat_currency r = None \<and> flat_salary_source r = None
                 | Some extracted \<Rightarrow>
                     flat_interval r = Some (ext_interval extracted)
                     \<and> flat_min_amount r = Some (ext_min_amount extracted)
                     \<and> flat_max_amount r = Some (ext_max_amount extracted)
                     \<and> flat_currency r = Some (ext_currency extracted)
                     \<and> flat_salary_source r = Some (SalarySource_value DESCRIPTION)"
    if "\<not> hasAmount job" "countryName = Some (js ''usa'') \<or> countryName = Some (js ''us'')"
    using that unfolding assms flattenJob_def opts
    by (auto simp: flattenBase_def Let_def split: option.splits)
  have no_text: "extractSalary (description job) (flatten_opts params) = None"
    if "\<not> truthy (description job)"
    using that by (auto simp: extractSalary_def truthy_def split: option.splits)
  have none: "flat_interval r = None \<and> flat_min_amount r = None \<and> flat_max_amount r = None
              \<and> flat_currency r = None \<and> flat_salary_source r = None"
    if "\<not> hasAmount job"
      "\<not> truthy (description job)
       \<or> (countryName \<noteq> Some (js ''usa'') \<and> countryName \<noteq> Some (js ''us''))"
  proof (cases "countryName = Some (js ''usa'') \<or> countryName = Some (js ''us'')")
    case True
    with that(2) have "\<not> truthy (description job)" by auto
    from no_text [OF this] inferred [OF that(1) True] show ?thesis
      by simp
  next
    case False
    with that(1) show ?thesis
      unfolding assms by (simp add: flattenJob_def flattenBase_def Let_def)
  qed
  show ?thesis
    using base direct inferred none by blast
qed

theorem flattenJob_fields_witness:
  "compensation example_post
     = Some \<lparr> comp_interval = Some YEARLY, comp_min_amount = Some 100000,
              comp_max_amount = None, comp_currency = None \<rparr>
   \<and> flat_company (flattenJob example_post (js ''indeed'') (Some (js ''usa'')) example_params)
       = Some (js ''Acme'')
   \<and> flat_job_level (flattenJob example_post (js ''indeed'') (Some (js ''usa'')) example_params)
       = None
   \<and> flat_currency (flattenJob example_post (js ''indeed'') (Some (js ''usa'')) example_params)
       = Some (js ''USD'')
   \<and> flat_min_amount (flattenJob example_post (js ''indeed'') (Some (js ''usa'')) example_params)
       = Some 100000
   \<and> flat_max_amount (flattenJob example_post (js ''indeed'') (Some (js ''usa'')) example_params)
       = None
   \<and> compensation hourly_post
       = Some \<lparr> comp_interval = Some HOURLY, comp_min_amount = Some 20,
                comp_max_amount = Some 30, comp_currency = Some (js ''USD'') \<rparr>
   \<and> p_enforce_annual_salary annual_params = Some True
   \<and> multipliers HOURLY = Some 2080
   \<and> flat_interval (flattenJob hourly_post (js ''indeed'') (Some (js ''usa'')) annual_params)
       = Some (js ''yearly'')
   \<and> flat_min_amount (flattenJob hourly_post (js ''indeed'') (Some (js ''usa'')) annual_params)
       = Some 41600
   \<and> flat_max_amount (flattenJob hourly_post (js ''indeed'') (Some (js ''usa'')) annual_params)
       = Some 62400
   \<and> \<not> hasAmount inferred_post
   \<and> extractSalary (description inferred_post) (flatten_opts example_params)
       = Some \<lparr> ext_interval = CompensationInterval_value HOURLY, ext_min_amount = 50,
                ext_max_amount = 70, ext_currency = js ''USD'' \<rparr>
   \<and> flat_interval (flattenJob inferred_post (js ''indeed'') (Some (js ''usa'')) example_params)
       = Some (js ''hourly'')
   \<and> flat_max_amount (flattenJob inferred_post (js ''indeed'') (Some (js ''usa'')) example_params)
       = Some 70
   \<and> flat_salary_source (flattenJob inferred_post (js ''indeed'') (Some (js ''usa'')) example_params)
       = Some (js ''description'')
   \<and> \<not> hasAmount interval_only_post \<and> \<not> truthy (description interval_only_post)
   \<and> flat_interval (flattenJob interval_only_post (js ''indeed'') (Some (js ''usa'')) example_params)
       = None"
proof -
  let ?c1 = "\<lparr> comp_interval = Some YEARLY, comp_min_amount = Some 100000,
               comp_max_amount = None, comp_currency = None \<rparr>"
  let ?c2 = "\<lparr> comp_interval = Some HOURLY, comp_min_amount = Some 20,
               comp_max_amount = Some 30, comp_currency = Some (js ''USD'') \<rparr>"
  have comp1: "compensation example_post = Some ?c1"
    by (simp add: example_post_def emptyJob_def)
  have post: "company_name example_post = Some (js ''Acme'')" "job_level example_post = None"
    by (simp_all add: example_post_def emptyJob_def)
  have plain: "p_enforce_annual_salary example_params \<noteq> Some True"
    by (simp add: example_params_def)
  note one = flattenJob_fields
    [OF refl, of example_post "js ''indeed''" "Some (js ''usa'')" example_params]
  from one comp1 plain post
  have first:
    "flat_company (flattenJob example_post (js ''indeed'') (Some (js ''usa'')) example_params)
       = Some (js ''Acme'')"
    "flat_job_level (flattenJob example_post (js ''indeed'') (Some (js ''usa'')) example_params)
       = None"
    "flat_currency (flattenJob example_post (js ''indeed'') (Some (js ''usa'')) example_params)
       = Some (js ''USD'')"
    "flat_min_amount (flattenJob example_post (js ''indeed'') (Some (js ''usa'')) example_params)
       = Some 100000"
    "flat_max_amount (flattenJob example_post (js ''indeed'') (Some (js ''usa'')) example_params)
       = None"
    by (simp_all add: opt_default_def)
  have comp2: "compensation hourly_post = Some ?c2"
    by (simp add: hourly_post_def emptyJob_def)
  have enforce: "p_enforce_annual_salary annual_params = Some True"
    by (simp add: annual_params_def)
  note two = flattenJob_fields
    [OF refl, of hourly_post "js ''indeed''" "Some (js ''usa'')" annual_params]
  from two comp2 enforce
  have second:
    "flat_interval (flattenJob hourly_post (js ''indeed'') (Some (js ''usa'')) annual_params)
       = Some (js ''yearly'')"
    "flat_min_amount (flattenJob hourly_post (js ''indeed'') (Some (js ''usa'')) annual_params)
       = Some 41600"
    "flat_max_amount (flattenJob hourly_post (js ''indeed'') (Some (js ''usa'')) annual_params)
       = Some 62400"
    by simp_all
  have none3: "\<not> hasAmount inferred_post"
    and text3: "description inferred_post = Some (js ''$50 - $70 per hour'')"
    by (simp_all add: inferred_post_def emptyJob_def hasAmount_def)
  note ex = extractSalary_default_example
  note three = flattenJob_fields
    [OF refl, of inferred_post "js ''indeed''" "Some (js ''usa'')" example_params]
  from three none3 text3 ex
  have third:
    "flat_interval (flattenJob inferred_post (js ''indeed'') (Some (js ''usa'')) example_params)
       = Some (js ''hourly'')"
    "flat_max_amount (flattenJob inferred_post (js ''indeed'') (Some (js ''usa'')) example_params)
       = Some 70"
    "flat_salary_source (flattenJob inferred_post (js ''indeed'') (Some (js ''usa'')) example_params)
       = Some (js ''description'')"
    by simp_all
  have none4: "\<not> hasAmount interval_only_post" "\<not> truthy (description interval_only_post)"
    by (simp_all add: interval_only_post_def emptyJob_def hasAmount_def truthy_def)
  note four = flattenJob_fields
    [OF refl, of interval_only_post "js ''indeed''" "Some (js ''usa'')" example_params]
  from four none4
  have fourth:
    "flat_interval (flattenJob interval_only_post (js ''indeed'') (Some (js ''usa'')) example_params)
       = None"
    by simp
  show ?thesis
    using comp1 first comp2 enforce second none3 ex text3 third none4 fourth
    by simp
qed

subsection \<open>The order of the result\<close>

lemma localeCompare_eq_0: "localeCompare a b = 0 \<longleftrightarrow> a = b"
  by (induction a b rule: localeCompare.induct) auto

lemma localeCompare_refl: "localeCompare a a = 0"
  by (simp add: localeCompare_eq_0)

lemma localeCompare_flip: "localeCompare b a = - localeCompare a b"
  by (induction a b rule: localeCompare.induct) auto

lemma localeCompare_values: "localeCompare a b = - 1 \<or> localeCompare a b = 0 \<or> localeCompare a b = 1"
  by (induction a b rule: localeCompare.induct) auto

lemma localeCompare_trans:
  "localeCompare a b \<le> 0 \<Longrightarrow> localeCompare b c \<le> 0 \<Longrightarrow> localeCompare a c \<le> 0"
proof (induction a b arbitrary: c rule: localeCompare.induct)
  case 1
  then show ?case by simp
next
  case (2 y ys)
  then show ?case by (cases c) auto
next
  case (3 x xs)
  then show ?case by simp
next
  case (4 x xs y ys)
  show ?case
  proof (cases c)
    case Nil
    with 4 show ?thesis by simp
  next
    case (Cons z zs)
    from "4.prems"(1) have xy: "x < y \<or> (x = y \<and> localeCompare xs ys \<le> 0)"
      by (simp split: if_splits)
    from "4.prems"(2) Cons have yz: "y < z \<or> (y = z \<and> localeCompare ys zs \<le> 0)"
      by (simp split: if_splits)
    show ?thesis
    proof (cases "x = y \<and> y = z")
      case True
      with xy yz have "localeCompare xs ys \<le> 0" "localeCompare ys zs \<le> 0"
        by simp_all
      with True "4.IH" [of zs] have "localeCompare xs zs \<le> 0"
        by simp
      with True Cons show ?thesis by simp
    next
      case False
      with xy yz have "x < z" by auto
      with Cons show ?thesis by simp
    qed
  qed
qed

lemma localeCompare_empty_left: "d \<noteq> [] \<Longrightarrow> localeCompare [] d = - 1"
  by (cases d) auto

lemma set_insert_by: "set (insert_by cmp x xs) = insert x (set xs)"
  by (induction xs) auto

lemma mset_insert_by: "mset (insert_by cmp x xs) = add_mset x (mset xs)"
  by (induction xs) auto

lemma mset_sort_by: "mset (sort_by cmp xs) = mset xs"
  by (induction xs) (auto simp: sort_by_def mset_insert_by)

lemma sorted_insert_by:
  assumes total: "\<And>a b. (0::int) < cmp a b \<Longrightarrow> cmp b a \<le> 0"
    and trans: "\<And>a b c. cmp a b \<le> 0 \<Longrightarrow> cmp b c \<le> 0 \<Longrightarrow> cmp a c \<le> 0"
    and sorted: "sorted_wrt (\<lambda>a b. cmp a b \<le> 0) xs"
  shows "sorted_wrt (\<lambda>a b. cmp a b \<le> 0) (insert_by cmp x xs)"
  using sorted
proof (induction xs)
  case Nil
  then show ?case by simp
next
  case (Cons y ys)
  show ?case
  proof (cases "cmp x y \<le> 0")
    case True
    then have "\<forall>z\<in>set ys. cmp x z \<le> 0"
      using Cons.prems trans by auto
    with True Cons.prems show ?thesis by simp
  next
    case False
    then have "cmp y x \<le> 0" using total [of x y] by simp
    with False Cons show ?thesis
      by (auto simp: set_insert_by)
  qed
qed

lemma sorted_sort_by:
  assumes total: "\<And>a b. (0::int) < cmp a b \<Longrightarrow> cmp b a \<le> 0"
    and trans: "\<And>a b c. cmp a b \<le> 0 \<Longrightarrow> cmp b c \<le> 0 \<Longrightarrow> cmp a c \<le> 0"
  shows "sorted_wrt (\<lambda>a b. cmp a b \<le> 0) (sort_by cmp xs)"
proof (induction xs)
  case Nil
  then show ?case by (simp add: sort_by_def)
next
  case (Cons x xs)
  have "sort_by cmp (x # xs) = insert_by cmp x (sort_by cmp xs)"
    by (simp add: sort_by_def)
  with Cons sorted_insert_by [of cmp, OF total trans] show ?case
    by simp
qed

lemma sorted_wrt_before:
  assumes "sorted_wrt (\<lambda>a b. cmp a b \<le> (0::int)) xs" "i < length xs" "j < length xs"
    and "0 < cmp (xs ! j) (xs ! i)" and refl: "\<And>a. cmp a a \<le> 0"
  shows "i < j"
proof (rule ccontr)
  assume "\<not> i < j"
  then consider "i = j" | "j < i" by linarith
  then show False
  proof cases
    case 1
    with assms(4) refl [of "xs ! i"] show False
      by simp
  next
    case 2
    with assms(1,2) have "cmp (xs ! j) (xs ! i) \<le> 0"
      using sorted_wrt_nth_less [of "\<lambda>a b. cmp a b \<le> 0" xs j i] by simp
    with assms(4) show False by simp
  qed
qed

lemma compareJobs_refl: "compareJobs a a \<le> 0"
  by (simp add: compareJobs_def Let_def localeCompare_refl)

lemma compareJobs_flip: "compareJobs b a = - compareJobs a b"
  using localeCompare_flip [of "flat_site b" "flat_site a"]
    localeCompare_flip [of "opt_default [] (flat_date_posted a)" "opt_default [] (flat_date_posted b)"]
  by (simp add: compareJobs_def Let_def)

lemma compareJobs_total: "0 < compareJobs a b \<Longrightarrow> compareJobs b a \<le> 0"
  using compareJobs_flip [of b a] by simp

lemma compareJobs_le:
  "compareJobs a b \<le> 0 \<longleftrightarrow>
     localeCompare (flat_site a) (flat_site b) < 0
   \<or> (flat_site a = flat_site b
       \<and> localeCompare (opt_default [] (flat_date_posted b)) (opt_default [] (flat_date_posted a)) \<le> 0)"
  using localeCompare_eq_0 [of "flat_site a" "flat_site b"]
  by (auto simp: compareJobs_def Let_def)

lemma localeCompare_less_trans:
  assumes "localeCompare a b < 0" "localeCompare b c \<le> 0"
  shows "localeCompare a c < 0"
proof -
  have le: "localeCompare a c \<le> 0"
    using assms localeCompare_trans [of a b c] by simp
  have "localeCompare a c \<noteq> 0"
  proof
    assume "localeCompare a c = 0"
    then have "a = c" by (simp add: localeCompare_eq_0)
    with assms localeCompare_flip [of b a] show False by simp
  qed
  with le show ?thesis by simp
qed

lemma compareJobs_trans:
  assumes "compareJobs a b \<le> 0" "compareJobs b c \<le> 0"
  shows "compareJobs a c \<le> 0"
proof -
  let ?d = "\<lambda>r. opt_default [] (flat_date_posted r)"
  from assms(1) consider (less) "localeCompare (flat_site a) (flat_site b) < 0"
    | (same) "flat_site a = flat_site b" "localeCompare (?d b) (?d a) \<le> 0"
    by (auto simp: compareJobs_le)
  then show ?thesis
  proof cases
    case less
    from assms(2) have "localeCompare (flat_site b) (flat_site c) \<le> 0"
      by (auto simp: compareJobs_le localeCompare_refl)
    with less have "localeCompare (flat_site a) (flat_site c) < 0"
      by (rule localeCompare_less_trans)
    then show ?thesis by (simp add: compareJobs_le)
  next
    case same
    from assms(2) consider (less2) "localeCompare (flat_site b) (flat_site c) < 0"
      | (same2) "flat_site b = flat_site c" "localeCompare (?d c) (?d b) \<le> 0"
      by (auto simp: compareJobs_le)
    then show ?thesis
    proof cases
      case less2
      with same show ?thesis by (simp add: compareJobs_le)
    next
      case same2
      with same localeCompare_trans [of "?d c" "?d b" "?d a"] show ?thesis
        by (simp add: compareJobs_le)
    qed
  qed
qed

lemma sorted_compareJobs: "sorted_wrt (\<lambda>a b. compareJobs a b \<le> 0) (sort_by compareJobs xs)"
  by (rule sorted_sort_by [OF compareJobs_total compareJobs_trans])

lemma sort_by_before:
  assumes "i < length (sort_by compareJobs xs)" "j < length (sort_by compareJobs xs)"
    and "0 < compareJobs (sort_by compareJobs xs ! j) (sort_by compareJobs xs ! i)"
  shows "i < j"
  using sorted_wrt_before [OF sorted_compareJobs assms compareJobs_refl] .

subsection \<open>Country registry\<close>

lemma map_of_dict_set: "map_of (dict_set k v cs) k' = (if k' = k then Some v else map_of cs k')"
  by (induction cs) auto

lemma map_of_foldl_dict_set:
  "map_of (foldl (\<lambda>cs n. dict_set n v cs) cs ns) k = (if k \<in> set ns then Some v else map_of cs k)"
  by (induction ns arbitrary: cs) (auto simp: map_of_dict_set)

lemma map_of_addCountry:
  "map_of (addCountry names d g cs) k
     = (if k \<in> set (nameList_of names) then Some (descriptor names d g) else map_of cs k)"
  by (simp add: addCountry_def map_of_foldl_dict_set)

lemma map_of_registrations:
  "map_of (foldl (\<lambda>cs (names, d, g). addCountry names d g cs) cs regs) k
     = registered k regs (map_of cs k)"
  by (induction regs arbitrary: cs) (auto simp: map_of_addCountry)

lemma map_of_COUNTRIES: "map_of COUNTRIES k = registered k registrations None"
  by (simp add: COUNTRIES_def map_of_registrations)

lemmas registry_eval =
  registrations_def nameList_of_def toLowerCase_def lowerUnit_def trim_def isSpace_def js_def

lemma COUNTRIES_usa:
  "map_of COUNTRIES (js ''usa'') =
     Some \<lparr> name = js ''usa'', indeed_domain = js ''www'', indeed_api_code = js ''US'',
            glassdoor_domain = Some (js ''www.glassdoor.com'') \<rparr>"
  unfolding map_of_COUNTRIES
  by (simp add: registry_eval)
     (simp add: descriptor_def registry_eval split_pair_def truthy_def toUpperCase_def upperUnit_def)

lemma COUNTRIES_constructor: "map_of COUNTRIES (js ''constructor'') = None"
  unfolding map_of_COUNTRIES
  by (simp add: registry_eval)

lemma getCountry_usa: "getCountry (js ''usa'') = Inr (Own usa)"
proof -
  have key: "toLowerCase (trim (js ''usa'')) = js ''usa''"
    by (simp add: toLowerCase_def lowerUnit_def trim_def isSpace_def js_def)
  show ?thesis
    unfolding getCountry_def Let_def key dict_get_def COUNTRIES_usa usa_def
    by simp
qed

text \<open>
  The first half of claim C8 holds: a string whose trimmed lower-case form is a registered
  name resolves to the descriptor of that registration, as does the canonical name, which is
  the \<open>name\<close> of the descriptor.
\<close>

lemma registered_absent:
  "alias \<notin> set (concat (map (\<lambda>reg. nameList_of (fst reg)) regs))
     \<Longrightarrow> registered alias regs found = found"
  by (induction regs arbitrary: found) auto

lemma registered_distinct:
  assumes "distinct (concat (map (\<lambda>reg. nameList_of (fst reg)) regs))"
    and "(names, d, g) \<in> set regs" "alias \<in> set (nameList_of names)"
  shows "registered alias regs found = Some (descriptor names d g)"
  using assms
proof (induction regs arbitrary: found)
  case Nil
  then show ?case by simp
next
  case (Cons r regs)
  obtain names' d' g' where reg: "r = (names', d', g')"
    by (cases r) auto
  show ?case
  proof (cases "(names, d, g) = r")
    case True
    with Cons.prems reg
    have "set (nameList_of names)
            \<inter> set (concat (map (\<lambda>reg. nameList_of (fst reg)) regs)) = {}"
      by (simp del: set_concat)
    with Cons.prems(3)
    have "alias \<notin> set (concat (map (\<lambda>reg. nameList_of (fst reg)) regs))"
      by blast
    with True reg Cons.prems(3) show ?thesis
      by (simp add: registered_absent)
  next
    case False
    with Cons.prems have "(names, d, g) \<in> set regs"
      and "distinct (concat (map (\<lambda>reg. nameList_of (fst reg)) regs))"
      by auto
    with Cons.IH Cons.prems(3) reg show ?thesis
      by simp
  qed
qed

lemma registered_names_distinct:
  "distinct (concat (map (\<lambda>reg. nameList_of (fst reg)) registrations))"
  by (simp add: registry_eval)

lemma canonical_names_are_keys:
  "list_all (\<lambda>(names, d, g). toLowerCase (trim (hd (nameList_of names))) = hd (nameList_of names))
     registrations"
  by (simp add: registry_eval)

lemma getCountry_alias:
  assumes "(names, d, g) \<in> set registrations" "alias \<in> set (nameList_of names)"
    and "toLowerCase (trim s) = alias"
  shows "getCountry s = Inr (Own (descriptor names d g))"
    and "getCountry (hd (nameList_of names)) = Inr (Own (descriptor names d g))"
    and "name (descriptor names d g) = hd (nameList_of names)"
proof -
  have found: "map_of COUNTRIES a = Some (descriptor names d g)" if "a \<in> set (nameList_of names)" for a
    unfolding map_of_COUNTRIES
    using registered_distinct [OF registered_names_distinct assms(1) that] .
  show "getCountry s = Inr (Own (descriptor names d g))"
    using found [OF assms(2)] assms(3) by (simp add: getCountry_def dict_get_def)
  have "nameList_of names \<noteq> []"
    using assms(2) by auto
  then have canonical: "hd (nameList_of names) \<in> set (nameList_of names)"
    by simp
  have "toLowerCase (trim (hd (nameList_of names))) = hd (nameList_of names)"
    using canonical_names_are_keys assms(1) by (auto simp: list_all_iff)
  then show "getCountry (hd (nameList_of names)) = Inr (Own (descriptor names d g))"
    using found [OF canonical] by (simp add: getCountry_def dict_get_def)
  show "name (descriptor names d g) = hd (nameList_of names)"
    by (simp add: descriptor_def Let_def split: prod.splits)
qed

lemma getCountry_alias_example:
  "getCountry (js '' United States '') = getCountry (js ''usa'')"
proof -
  have reg: "(js ''usa,us,united states'', js ''www:us'', Some (js ''com'')) \<in> set registrations"
    by (simp add: registrations_def)
  have names: "nameList_of (js ''usa,us,united states'') = [js ''usa'', js ''us'', js ''united states'']"
    by (simp add: registry_eval)
  have k1: "toLowerCase (trim (js '' United States '')) = js ''united states''"
    and k2: "toLowerCase (trim (js ''usa'')) = js ''usa''"
    by (simp_all add: registry_eval)
  show ?thesis
    using getCountry_alias(1) [OF reg _ k1] getCountry_alias(1) [OF reg _ k2] names by simp
qed

text \<open>
  Claim C8: for every registered alias \<open>getCountry\<close> returns the descriptor of the
  canonical name, and for any unregistered string it throws an error that lists the valid
  keys. The code breaks the second part: \<open>COUNTRIES[key]\<close> also finds the members that a
  plain object inherits from \<open>Object.prototype\<close>, and those are truthy. The strings
  \<open>"constructor"\<close> and \<open>"__proto__"\<close> are not registered, yet \<open>getCountry\<close> returns the
  inherited member instead of throwing.
\<close>

theorem getCountry_returns_inherited_member:
  "map_of COUNTRIES (js ''constructor'') = None
   \<and> getCountry (js ''constructor'') = Inr (Inherited (js ''constructor''))
   \<and> getCountry (js ''__proto__'') = Inr (Inherited (js ''__proto__''))"
proof -
  have keys: "toLowerCase (trim (js ''constructor'')) = js ''constructor''"
    "toLowerCase (trim (js ''__proto__'')) = js ''__proto__''"
    by (simp_all add: toLowerCase_def lowerUnit_def trim_def isSpace_def js_def)
  have proto: "map_of COUNTRIES (js ''__proto__'') = None"
    unfolding map_of_COUNTRIES by (simp add: registry_eval)
  have inherited: "js ''constructor'' \<in> set Object_prototype_keys"
    "js ''__proto__'' \<in> set Object_prototype_keys"
    by (simp_all add: Object_prototype_keys_def)
  show ?thesis
    unfolding getCountry_def Let_def keys dict_get_def
    using COUNTRIES_constructor proto inherited by simp
qed

subsection \<open>Orchestrator\<close>

lemma scrapeJobs_Inr:
  assumes "scrapeJobs params world = Inr jobs"
  shows "\<exists>sites ctry jobType.
           resolveSites (p_site_name params) = Inr sites
         \<and> getCountry (opt_default (js ''usa'') (p_country_indeed params)) = Inr ctry
         \<and> resolveJobType (p_job_type params) = Inr jobType
         \<and> jobs = sort_by compareJobs
                    (collect params (country_name ctry)
                       (map (\<lambda>site. (site, dispatch world (buildInput params sites ctry jobType) site))
                            sites))"
  using assms by (auto simp: scrapeJobs_def Let_def split: sum.splits)

lemma mapStrToSite_indeed: "mapStrToSite (js ''indeed'') = Inr INDEED"
  by (simp add: mapStrToSite_def Site_values_def toUpperCase_def upperUnit_def js_def)

lemma mapStrToSite_linkedin: "mapStrToSite (js ''linkedin'') = Inr LINKEDIN"
  by (simp add: mapStrToSite_def Site_values_def toUpperCase_def upperUnit_def js_def)

lemma mapStrToSite_bayt: "mapStrToSite (js ''bayt'') = Inr BAYT"
  by (simp add: mapStrToSite_def Site_values_def toUpperCase_def upperUnit_def js_def)

lemma order_run: "scrapeJobs order_params order_world = Inr order_result"
proof -
  have sites: "resolveSites (p_site_name order_params) = Inr [INDEED, BAYT]"
    by (simp add: order_params_def example_params_def resolveSites_def mapStrToSite_indeed
        mapStrToSite_bayt)
  have ctry: "getCountry (opt_default (js ''usa'') (p_country_indeed order_params)) = Inr (Own usa)"
    by (simp add: order_params_def example_params_def opt_default_def getCountry_usa)
  have jt: "resolveJobType (p_job_type order_params) = Inr None"
    by (simp add: order_params_def example_params_def resolveJobType_def truthy_def)
  have sites_differ: "localeCompare (js ''bayt'') (js ''indeed'') = - 1"
    "localeCompare (js ''indeed'') (js ''bayt'') = 1"
    by (simp_all add: js_def)
  have dates: "localeCompare (js ''2024-03-01'') (js ''2024-01-01'') = 1"
    "localeCompare (js ''2024-01-01'') (js ''2024-03-01'') = - 1"
    "localeCompare [] (js ''2024-01-01'') = - 1" "localeCompare [] (js ''2024-03-01'') = - 1"
    "localeCompare (js ''2024-01-01'') [] = 1" "localeCompare (js ''2024-03-01'') [] = 1"
    by (simp_all add: js_def)
  have flat: "flat_site (flattenJob job site cn params) = site"
    "flat_date_posted (flattenJob job site cn params) = date_posted job" for job site cn params
    by (simp_all add: flattenJob_def flattenBase_def convertToAnnual_def Let_def
        split: option.splits)
  have dd: "date_posted (dated u d) = d" for u d
    by (simp add: dated_def emptyJob_def)
  show ?thesis
    unfolding scrapeJobs_def sites ctry jt
    by (simp add: Let_def dispatch_def order_world_def collect_def sort_by_def compareJobs_def
        flat dd sites_differ dates localeCompare_refl opt_default_def order_result_def usa_def)
qed
lemma partial_run_parts:
  "resolveSites (p_site_name partial_params) = Inr [INDEED, LINKEDIN]"
  "getCountry (opt_default (js ''usa'') (p_country_indeed partial_params)) = Inr (Own usa)"
  "resolveJobType (p_job_type partial_params) = Inr None"
  by (simp_all add: partial_params_def example_params_def resolveSites_def mapStrToSite_indeed
      mapStrToSite_linkedin opt_default_def getCountry_usa resolveJobType_def truthy_def)

lemma partial_run: "scrapeJobs partial_params partial_world = Inr partial_result"
  unfolding scrapeJobs_def partial_run_parts
  by (simp add: Let_def dispatch_def partial_world_def collect_def sort_by_def partial_result_def
      usa_def)

text \<open>
  Claim C6. In the list that \<open>scrapeJobs\<close> returns, a record of a site that comes earlier
  in the order of the site names stands before every record of a later site, whatever the
  dates; within one site a record with a later \<open>date_posted\<close> stands before a record with an
  earlier one; and a record without \<open>date_posted\<close> stands after every record of the same
  site that has a date (a date is a string that is not empty: the comparison treats the
  empty string like a missing date).
\<close>

theorem scrapeJobs_order:
  assumes "scrapeJobs params world = Inr jobs" "i < length jobs" "j < length jobs"
  shows "(localeCompare (flat_site (jobs ! i)) (flat_site (jobs ! j)) < 0 \<longrightarrow> i < j)
       \<and> (flat_site (jobs ! i) = flat_site (jobs ! j)
          \<and> (\<exists>d1 d2. flat_date_posted (jobs ! i) = Some d1 \<and> flat_date_posted (jobs ! j) = Some d2
                     \<and> localeCompare d2 d1 < 0)
          \<longrightarrow> i < j)
       \<and> (flat_site (jobs ! i) = flat_site (jobs ! j)
          \<and> (\<exists>d. flat_date_posted (jobs ! i) = Some d \<and> d \<noteq> [])
          \<and> flat_date_posted (jobs ! j) = None
          \<longrightarrow> i < j)"
proof -
  from scrapeJobs_Inr [OF assms(1)] obtain xs where jobs: "jobs = sort_by compareJobs xs"
    by blast
  have before: "i < j" if "0 < compareJobs (jobs ! j) (jobs ! i)"
    using sort_by_before [of i xs j] assms(2,3) that unfolding jobs by simp
  have site: "i < j" if "localeCompare (flat_site (jobs ! i)) (flat_site (jobs ! j)) < 0"
  proof (rule before)
    from that localeCompare_flip [of "flat_site (jobs ! j)" "flat_site (jobs ! i)"]
    show "0 < compareJobs (jobs ! j) (jobs ! i)"
      by (simp add: compareJobs_def Let_def)
  qed
  have date: "i < j"
    if "flat_site (jobs ! i) = flat_site (jobs ! j)" "flat_date_posted (jobs ! i) = Some d1"
      "flat_date_posted (jobs ! j) = Some d2" "localeCompare d2 d1 < 0" for d1 d2
  proof (rule before)
    from that localeCompare_flip [of d1 d2]
    show "0 < compareJobs (jobs ! j) (jobs ! i)"
      by (simp add: compareJobs_def Let_def localeCompare_eq_0 opt_default_def)
  qed
  have undated: "i < j"
    if "flat_site (jobs ! i) = flat_site (jobs ! j)" "flat_date_posted (jobs ! i) = Some d"
      "d \<noteq> []" "flat_date_posted (jobs ! j) = None" for d
  proof (rule before)
    from that localeCompare_empty_left [of d] localeCompare_flip [of d "[]"]
    show "0 < compareJobs (jobs ! j) (jobs ! i)"
      by (simp add: compareJobs_def Let_def localeCompare_eq_0 opt_default_def)
  qed
  show ?thesis
    using site date undated by blast
qed

theorem scrapeJobs_order_witness:
  "scrapeJobs order_params order_world = Inr order_result
   \<and> (1::nat) < length order_result \<and> (3::nat) < length order_result
   \<and> localeCompare (flat_site (order_result ! 0)) (flat_site (order_result ! 1)) < 0
   \<and> flat_site (order_result ! 1) = flat_site (order_result ! 3)
   \<and> flat_date_posted (order_result ! 1) = Some (js ''2024-03-01'')
   \<and> flat_date_posted (order_result ! 2) = Some (js ''2024-01-01'')
   \<and> localeCompare (js ''2024-01-01'') (js ''2024-03-01'') < 0
   \<and> flat_date_posted (order_result ! 3) = None
   \<and> (0::nat) < 1 \<and> (1::nat) < 2 \<and> (1::nat) < 3"
proof -
  have flat: "flat_site (flattenJob job site cn params) = site"
    "flat_date_posted (flattenJob job site cn params) = date_posted job" for job site cn params
    by (simp_all add: flattenJob_def flattenBase_def convertToAnnual_def Let_def
        split: option.splits)
  have dd: "date_posted (dated u d) = d" for u d
    by (simp add: dated_def emptyJob_def)
  have facts: "(1::nat) < length order_result" "(3::nat) < length order_result"
    "flat_site (order_result ! 0) = js ''bayt''" "flat_site (order_result ! 1) = js ''indeed''"
    "flat_site (order_result ! 3) = js ''indeed''"
    "flat_date_posted (order_result ! 1) = Some (js ''2024-03-01'')"
    "flat_date_posted (order_result ! 2) = Some (js ''2024-01-01'')"
    "flat_date_posted (order_result ! 3) = None"
    by (simp_all add: order_result_def flat dd)
  have cmp: "localeCompare (js ''bayt'') (js ''indeed'') < 0"
    "localeCompare (js ''2024-01-01'') (js ''2024-03-01'') < 0"
    by (simp_all add: js_def)
  show ?thesis
    using scrapeJobs_order [OF order_run facts(1) facts(2)] order_run facts cmp
    by simp
qed

text \<open>
  Claim C10. In every flat record returned by \<open>scrapeJobs\<close>, \<open>salary_source\<close> is present
  if and only if \<open>min_amount\<close> is present. In particular a post whose compensation has an
  upper amount only is flattened to a record with \<open>max_amount\<close> (and the interval of the
  post) but without \<open>min_amount\<close> and without \<open>salary_source\<close>.
\<close>

theorem scrapeJobs_salary_source_iff_min_amount:
  "(scrapeJobs params world = Inr jobs
      \<longrightarrow> (\<forall>r\<in>set jobs. (flat_salary_source r \<noteq> None) = (flat_min_amount r \<noteq> None)))
   \<and> (compensation job = Some c \<and> comp_min_amount c = None \<and> comp_max_amount c = Some m
      \<longrightarrow> flat_max_amount (flattenJob job site countryName params) = Some m
        \<and> flat_interval (flattenJob job site countryName params)
            = map_option CompensationInterval_value (comp_interval c)
        \<and> flat_min_amount (flattenJob job site countryName params) = None
        \<and> flat_salary_source (flattenJob job site countryName params) = None)"
proof -
  have "(flat_salary_source r \<noteq> None) = (flat_min_amount r \<noteq> None)"
    if run: "scrapeJobs params world = Inr jobs" and r: "r \<in> set jobs" for r
  proof -
    from scrapeJobs_Inr [OF run] obtain cn results
      where jobs: "jobs = sort_by compareJobs (collect params cn results)"
      by blast
    have "set jobs = set (collect params cn results)"
      unfolding jobs using mset_sort_by [of compareJobs "collect params cn results"]
      by (metis set_mset_mset)
    with r obtain post s where "r = flattenJob post s cn params"
      by (auto simp: collect_def split: option.splits)
    then show ?thesis
      using flattenJob_salary_source [of post s cn params] by simp
  qed
  then show ?thesis
    using flattenJob_only_max [of job c m site countryName params] by blast
qed


theorem scrapeJobs_salary_source_iff_min_amount_witness:
  "scrapeJobs partial_params partial_world = Inr partial_result
   \<and> hd partial_result \<in> set partial_result
   \<and> flat_salary_source (hd partial_result) \<noteq> None
   \<and> flat_min_amount (hd partial_result) \<noteq> None
   \<and> compensation max_only_post
       = Some \<lparr> comp_interval = Some YEARLY, comp_min_amount = None,
                comp_max_amount = Some 90000, comp_currency = None \<rparr>
   \<and> flat_max_amount (flattenJob max_only_post (js ''indeed'') (Some (js ''usa'')) partial_params)
       = Some 90000
   \<and> flat_interval (flattenJob max_only_post (js ''indeed'') (Some (js ''usa'')) partial_params)
       = Some (js ''yearly'')
   \<and> flat_min_amount (flattenJob max_only_post (js ''indeed'') (Some (js ''usa'')) partial_params)
       = None
   \<and> flat_salary_source (flattenJob max_only_post (js ''indeed'') (Some (js ''usa'')) partial_params)
       = None"
proof -
  let ?c = "\<lparr> comp_interval = Some YEARLY, comp_min_amount = None,
              comp_max_amount = Some 90000, comp_currency = None \<rparr>"
  have comp: "compensation max_only_post = Some ?c"
    by (simp add: max_only_post_def emptyJob_def)
  have mem: "hd partial_result \<in> set partial_result"
    by (simp add: partial_result_def)
  have min: "flat_min_amount (hd partial_result) \<noteq> None"
    by (simp add: partial_result_def flattenJob_def flattenBase_def hasAmount_def Let_def
        example_post_def emptyJob_def partial_params_def example_params_def)
  note inst = scrapeJobs_salary_source_iff_min_amount
         [of partial_params partial_world partial_result max_only_post ?c
             90000 "js ''indeed''" "Some (js ''usa'')"]
  from inst partial_run mem min have src: "flat_salary_source (hd partial_result) \<noteq> None"
    by blast
  from inst comp
  have only_max:
    "flat_max_amount (flattenJob max_only_post (js ''indeed'') (Some (js ''usa'')) partial_params)
       = Some 90000"
    "flat_interval (flattenJob max_only_post (js ''indeed'') (Some (js ''usa'')) partial_params)
       = Some (js ''yearly'')"
    "flat_min_amount (flattenJob max_only_post (js ''indeed'') (Some (js ''usa'')) partial_params)
       = None"
    "flat_salary_source (flattenJob max_only_post (js ''indeed'') (Some (js ''usa'')) partial_params)
       = None"
    by simp_all
  show ?thesis
    using partial_run mem src min comp only_max by blast
qed




lemma getCountry_default: "getCountry (opt_default (js ''usa'') (p_country_indeed example_params)) = Inr (Own usa)"
  by (simp add: example_params_def opt_default_def getCountry_usa)

lemma every_run:
  "scrapeJobs example_params every_world
     = Inr (sort_by compareJobs
              (map (\<lambda>site. flattenJob example_post (Site_value site) (Some (js ''usa'')) example_params)
                   [LINKEDIN, INDEED, ZIP_RECRUITER, GLASSDOOR, GOOGLE, BAYT, NAUKRI, BDJOBS]))"
proof -
  have sites: "resolveSites (p_site_name example_params) = Inr Site_values"
    by (simp add: example_params_def resolveSites_def)
  have jt: "resolveJobType (p_job_type example_params) = Inr None"
    by (simp add: example_params_def resolveJobType_def truthy_def)
  show ?thesis
    unfolding scrapeJobs_def sites getCountry_default jt
    by (simp add: Let_def Site_values_def dispatch_def every_world_def collect_def usa_def)
qed

text \<open>
  Claim C2: with no site selection \<open>scrapeJobs\<close> dispatches all nine adapters, one per member
  of \<open>Site\<close>, and each of them can run. \<open>resolveSites\<close> does return the nine members, but
  \<open>SCRAPER_MAP\<close> has no class for \<open>Site.GOOGLE_CAREERS\<close>: constructing its adapter throws,
  whatever the job boards answer, and only eight adapters can run. In a run where every
  adapter that is constructed returns a post, the result has eight records and none of the
  site \<open>google_careers\<close>.
\<close>

theorem google_careers_has_no_adapter:
  "resolveSites None = Inr Site_values
   \<and> length Site_values = 9
   \<and> GOOGLE_CAREERS \<in> set Site_values
   \<and> SCRAPER_MAP GOOGLE_CAREERS = None
   \<and> (\<forall>world scraperInput. dispatch world scraperInput GOOGLE_CAREERS = None)
   \<and> length (filter (\<lambda>site. SCRAPER_MAP site \<noteq> None) Site_values) = 8
   \<and> (\<exists>jobs. scrapeJobs example_params every_world = Inr jobs \<and> length jobs = 8
         \<and> Site_value GOOGLE_CAREERS \<notin> set (map flat_site jobs))"
proof -
  let ?xs = "map (\<lambda>site. flattenJob example_post (Site_value site) (Some (js ''usa'')) example_params)
                 [LINKEDIN, INDEED, ZIP_RECRUITER, GLASSDOOR, GOOGLE, BAYT, NAUKRI, BDJOBS]"
  have m: "mset (sort_by compareJobs ?xs) = mset ?xs"
    by (rule mset_sort_by)
  then have len: "length (sort_by compareJobs ?xs) = 8"
    using size_mset [of "sort_by compareJobs ?xs"] by simp
  have flat: "flat_site (flattenJob job site cn params) = site" for job site cn params
    by (simp add: flattenJob_def flattenBase_def convertToAnnual_def Let_def split: option.splits)
  from m have "set (sort_by compareJobs ?xs) = set ?xs"
    by (metis set_mset_mset)
  then have "set (map flat_site (sort_by compareJobs ?xs)) = set (map flat_site ?xs)"
    by simp
  also have "Site_value GOOGLE_CAREERS \<notin> set (map flat_site ?xs)"
    by (simp add: flat js_def)
  finally have absent: "Site_value GOOGLE_CAREERS \<notin> set (map flat_site (sort_by compareJobs ?xs))" .
  have static: "resolveSites None = Inr Site_values" "length Site_values = 9"
    "GOOGLE_CAREERS \<in> set Site_values" "SCRAPER_MAP GOOGLE_CAREERS = None"
    "\<forall>world scraperInput. dispatch world scraperInput GOOGLE_CAREERS = None"
    "length (filter (\<lambda>site. SCRAPER_MAP site \<noteq> None) Site_values) = 8"
    by (simp_all add: resolveSites_def Site_values_def dispatch_def)
  show ?thesis
    using static every_run len absent by blast
qed

subsection \<open>Deduplication in the Bayt adapter\<close>

lemma extractJobInfo_listing_url:
  "map_option job_url (extractJobInfo bayt_listing)
     = Some (js ''https://www.bayt.com/en/uae/jobs/engineer-1/'')"
  by (simp add: extractJobInfo_def bayt_listing_def truthy_def emptyJob_def Let_def trim_def
      isSpace_def js_def)

text \<open>
  Claim C1: the list that an adapter's \<open>scrape\<close> returns has no two records with the same
  \<open>job_url\<close>. The Glassdoor, Indeed, Google and ZipRecruiter adapters keep a set of the URLs
  they have seen; \<open>Bayt.scrape\<close> keeps none and appends every job it extracts. When the site
  lists one job on two pages, the adapter returns it twice.
\<close>

theorem Bayt_scrape_repeats_job_url:
  "map job_url (Bayt_scrape repeated_fetch bayt_input)
     = [js ''https://www.bayt.com/en/uae/jobs/engineer-1/'',
        js ''https://www.bayt.com/en/uae/jobs/engineer-1/'']
   \<and> \<not> distinct (map job_url (Bayt_scrape repeated_fetch bayt_input))"
proof -
  obtain job where job: "extractJobInfo bayt_listing = Some job"
    and url: "job_url job = js ''https://www.bayt.com/en/uae/jobs/engineer-1/''"
    using extractJobInfo_listing_url by (cases "extractJobInfo bayt_listing") auto
  have wanted: "opt_default 10 (in_results_wanted bayt_input) = 15"
    by (simp add: bayt_input_def buildInput_def example_params_def opt_default_def)
  have pages: "repeated_fetch q (Suc 0) = [bayt_listing]"
    "repeated_fetch q (Suc (Suc 0)) = [bayt_listing]"
    "repeated_fetch q (Suc (Suc (Suc 0))) = []" for q
    by (simp_all add: repeated_fetch_def)
  have third: "bayt_loop (repeated_fetch q) 15 (Suc (Suc (Suc 0))) [job, job] = [job, job]" for q
    by (subst bayt_loop.simps) (simp add: pages)
  have second: "bayt_loop (repeated_fetch q) 15 (Suc (Suc 0)) [job] = [job, job]" for q
    by (subst bayt_loop.simps) (simp add: pages job third)
  have loop: "bayt_loop (repeated_fetch q) 15 (Suc 0) [] = [job, job]" for q
    by (subst bayt_loop.simps) (simp add: pages job second)
  have "Bayt_scrape repeated_fetch bayt_input = [job, job]"
    by (simp add: Bayt_scrape_def wanted loop slice0_def Let_def)
  then show ?thesis
    using url by simp
qed

subsection \<open>The shared request object\<close>

lemma set_this_keeps_request:
  assumes "heap_get h a = Some (Request r)"
  shows "heap_get (set_this this f h) a = Some (Request r)"
proof (cases "heap_get h this")
  case None
  with assms show ?thesis by (simp add: set_this_def)
next
  case (Some ob)
  show ?thesis
  proof (cases ob)
    case (Request r')
    with Some assms show ?thesis by (simp add: set_this_def)
  next
    case (Adapter fs)
    with Some assms have "a \<noteq> this"
      by auto
    with Some Adapter assms show ?thesis
      by (auto simp: set_this_def heap_get_def split: if_splits)
  qed
qed

lemma heap_get_append:
  "heap_get h a = Some ob \<Longrightarrow> heap_get (h @ h2) a = Some ob"
  by (auto simp: heap_get_def nth_append split: if_splits)

lemma exec_keeps_request:
  assumes "\<not> writes_through s" "heap_get h a = Some (Request r)"
  shows "heap_get (exec this input s h) a = Some (Request r)"
proof (cases s)
  case (CopyInput cap)
  show ?thesis
  proof (cases "heap_get h input")
    case None
    with CopyInput assms show ?thesis by simp
  next
    case (Some ob)
    with CopyInput assms show ?thesis
      by (cases ob) (simp_all add: Let_def set_this_keeps_request heap_get_append)
  qed
next
  case (WriteInput f)
  with assms show ?thesis by simp
qed (use assms in \<open>simp_all add: set_this_keeps_request\<close>)

lemma scrape_stmts_never_write_through:
  "s \<in> set (scrape_stmts cls d) \<Longrightarrow> \<not> writes_through s"
  by (cases cls) auto

lemma run_keeps_request:
  assumes "\<forall>t\<in>set invs. \<forall>s\<in>set (inv_todo t). \<not> writes_through s"
    and "heap_get h a = Some (Request r)"
  shows "heap_get (run input schedule invs h) a = Some (Request r)"
  using assms
proof (induction schedule arbitrary: invs h)
  case Nil
  then show ?case by simp
next
  case (Cons k schedule)
  show ?case
  proof (cases "k < length invs")
    case False
    with Cons show ?thesis by simp
  next
    case True
    show ?thesis
    proof (cases "inv_todo (invs ! k)")
      case Nil
      with True Cons show ?thesis by simp
    next
      case (Cons s rest)
      from True have mem: "invs ! k \<in> set invs" by simp
      with Cons Cons.prems(1) have s: "\<not> writes_through s"
        and rest: "\<forall>s'\<in>set rest. \<not> writes_through s'"
        by auto
      let ?invs = "invs[k := (invs ! k)\<lparr>inv_todo := rest\<rparr>]"
      have invs: "\<forall>t\<in>set ?invs. \<forall>s\<in>set (inv_todo t). \<not> writes_through s"
      proof
        fix t assume "t \<in> set ?invs"
        then have "t = (invs ! k)\<lparr>inv_todo := rest\<rparr> \<or> t \<in> set invs"
          using set_update_subset_insert [of invs k] by auto
        with rest Cons.prems(1) show "\<forall>s\<in>set (inv_todo t). \<not> writes_through s"
          by auto
      qed
      have heap: "heap_get (exec (inv_this (invs ! k)) input s h) a = Some (Request r)"
        using exec_keeps_request [OF s Cons.prems(2)] .
      from Cons.IH [OF invs heap] True Cons show ?thesis
        by simp
    qed
  qed
qed

lemma dispatched_invocations_never_write_through:
  "\<forall>t\<in>set (dispatched_invocations adapters). \<forall>s\<in>set (inv_todo t). \<not> writes_through s"
  by (auto simp: dispatched_invocations_def dest!: in_set_takeD scrape_stmts_never_write_through)

text \<open>
  Claim C9. The request object that \<open>scrapeJobs\<close> builds is never mutated after the
  dispatch: whatever adapters are dispatched, however far each of them gets before it returns
  or throws, and in whatever order their statements are interleaved, the object at the
  address of the request is the one \<open>scrapeJobs\<close> built, with every field unchanged.
\<close>

theorem shared_request_never_mutated:
  "heap_get (run 0 schedule (dispatched_invocations adapters) (dispatched_heap scraperInput adapters)) 0
     = Some (Request scraperInput)"
proof -
  have "heap_get (dispatched_heap scraperInput adapters) 0 = Some (Request scraperInput)"
    by (simp add: dispatched_heap_def heap_get_def)
  with dispatched_invocations_never_write_through show ?thesis
    by (rule run_keeps_request)
qed

text \<open>
  The heap does tell an alias from a copy: after \<open>this.scraper_input = input\<close> an assignment
  through the field would change the shared request.
\<close>

lemma write_through_alias_changes_request:
  "heap_get
     (run 0 [0, 0, 0]
        [\<lparr> inv_this = 1, inv_todo = [InitSession 7 False, KeepInput,
                                  WriteInput (\<lambda>r. r\<lparr>in_results_wanted := Some 900\<rparr>)] \<rparr>]
        (dispatched_heap bayt_input [(Indeed, d)])) 0
     = Some (Request (bayt_input\<lparr>in_results_wanted := Some 900\<rparr>))"
  by (simp add: dispatched_heap_def newAdapter_def set_this_def heap_get_def)

end
